theory Spec2Isabelle
  imports Complex_Main "HOL-Library.AList" "HOL-Library.Word"
begin

section \<open>Catalog template store: version links\<close>

subsection \<open>Dynamic values of an API response\<close>

text \<open>
  A response is a Go \<^verbatim>\<open>map[string]interface{}\<close>. The dynamic values the store looks
  at are strings, \<^verbatim>\<open>int64\<close>, slices and nested maps; \<open>VOther\<close> stands for a value of any
  other dynamic type. A map is an association list read through \<open>map_of\<close>.
\<close>

datatype val =
    VNil
  | VBool bool
  | VInt64 "64 word"
  | VString string
  | VSlice "val list"
  | VMap "(string \<times> val) list"
  | VOther string

type_synonym obj = "(string \<times> val) list"

text \<open>A failed unchecked type assertion panics.\<close>

datatype panic = InterfaceConversion

text \<open>\<^verbatim>\<open>m[k]\<close> on a Go map: the nil interface when the key is absent.\<close>

definition index :: "obj \<Rightarrow> string \<Rightarrow> val" where
  "index m k = (case map_of m k of None \<Rightarrow> VNil | Some v \<Rightarrow> v)"

text \<open>\<^verbatim>\<open>v.(map[string]interface{})\<close> and \<^verbatim>\<open>v.(string)\<close>: unchecked, so they panic.\<close>

fun assert_map :: "val \<Rightarrow> panic + obj" where
  "assert_map (VMap m) = Inr m"
| "assert_map _ = Inl InterfaceConversion"

fun assert_string :: "val \<Rightarrow> panic + string" where
  "assert_string (VString s) = Inr s"
| "assert_string _ = Inl InterfaceConversion"

text \<open>\<^verbatim>\<open>v, ok := x.(int64)\<close> and \<^verbatim>\<open>v, ok := x.([]interface{})\<close>: checked.\<close>

fun assert_int64_ok :: "val \<Rightarrow> (64 word) option" where
  "assert_int64_ok (VInt64 i) = Some i"
| "assert_int64_ok _ = None"

fun assert_slice_ok :: "val \<Rightarrow> (val list) option" where
  "assert_slice_ok (VSlice xs) = Some xs"
| "assert_slice_ok _ = None"

subsection \<open>Formatting\<close>

definition digit_char :: "nat \<Rightarrow> char" where
  "digit_char d = ''0123456789'' ! d"

function FormatUint :: "nat \<Rightarrow> string" where
  "FormatUint n = (if n < 10 then [digit_char n]
                   else FormatUint (n div 10) @ [digit_char (n mod 10)])"
  by pat_completeness auto
termination
  by (relation "measure (\<lambda>n. n)") auto

declare FormatUint.simps [simp del]

text \<open>\<^verbatim>\<open>strconv.FormatInt(v, 10)\<close> of a signed 64-bit integer.\<close>

definition FormatInt :: "64 word \<Rightarrow> string" where
  "FormatInt v = (if sint v < 0 then CHR ''-'' # FormatUint (nat (- sint v))
                  else FormatUint (nat (sint v)))"

text \<open>
  The verb \<^verbatim>\<open>%v\<close> of \<^verbatim>\<open>fmt.Sprintf\<close>. Its rendering of composite values and of values of
  other dynamic types is the standard library's and is taken as the parameter \<open>other\<close>.
\<close>

fun fmt_v :: "(val \<Rightarrow> string) \<Rightarrow> val \<Rightarrow> string" where
  "fmt_v other VNil = ''<nil>''"
| "fmt_v other (VBool b) = (if b then ''true'' else ''false'')"
| "fmt_v other (VInt64 i) = FormatInt i"
| "fmt_v other (VString s) = s"
| "fmt_v other v = other v"

text \<open>\<^verbatim>\<open>fmt.Sprintf("%v-%v", a, b)\<close> with \<open>b\<close> a string.\<close>

definition Sprintf_v_v :: "(val \<Rightarrow> string) \<Rightarrow> val \<Rightarrow> string \<Rightarrow> string" where
  "Sprintf_v_v other a b = fmt_v other a @ ''-'' @ b"

subsection \<open>The store and what it calls\<close>

text \<open>
  Constants of the generated management client, which is not part of this package.
  Modelled from the spec: the field the store sets is the \<^verbatim>\<open>versionLinks\<close> field, computed
  from the template's versions, and the links point to template versions.
\<close>

definition CatalogTemplateFieldVersionLinks :: string where
  "CatalogTemplateFieldVersionLinks = ''versionLinks''"

definition CatalogTemplateFieldVersions :: string where
  "CatalogTemplateFieldVersions = ''versions''"

definition TemplateVersionType :: string where
  "TemplateVersionType = ''templateVersion''"

text \<open>
  The functions of other packages the store calls: the server-version setting, the
  catalog utilities and the external-ID parser. \<open>'t\<close> is the type of a catalog template
  version, \<open>'e\<close> the type of errors.
\<close>

record ('t, 'e) externals =
  settings_ServerVersion_Get :: string
  catUtil_ReleaseServerVersion :: "string \<Rightarrow> bool"
  catUtil_ValidateRancherVersion :: "'t \<Rightarrow> 'e option"
  hcommon_ParseExternalID :: "string \<Rightarrow> 'e + (string \<times> string)"
  fmt_other :: "val \<Rightarrow> string"

text \<open>
  \<^verbatim>\<open>templateStore\<close>: the lister's \<^verbatim>\<open>Get(namespace, name)\<close> returns a template version
  or an error.
\<close>

record ('t, 'e) templateStore =
  CatalogTemplateVersionLister_Get :: "string \<Rightarrow> string \<Rightarrow> 'e + 't"

text \<open>
  The part of \<^verbatim>\<open>types.APIContext\<close> the store uses: schema lookup in the management
  version by type name, and the URL builder.
\<close>

record 'sch APIContext =
  Schemas_Schema :: "string \<Rightarrow> 'sch"
  URLBuilder_ResourceLinkByID :: "'sch \<Rightarrow> string \<Rightarrow> string"

text \<open>
  \<^verbatim>\<open>templateVersionForRancherVersion\<close>: \<open>ParseExternalID\<close> returns the template version
  ID and the namespace, in this order.
\<close>

definition templateVersionForRancherVersion ::
  "('t, 'e) externals \<Rightarrow> ('t, 'e) templateStore \<Rightarrow> string \<Rightarrow> bool" where
  "templateVersionForRancherVersion ext t externalID =
     (let rancherVersion = settings_ServerVersion_Get ext in
      if \<not> catUtil_ReleaseServerVersion ext rancherVersion then True
      else case hcommon_ParseExternalID ext externalID of
             Inl err \<Rightarrow> True
           | Inr (templateVersionID, namespace) \<Rightarrow>
               (case CatalogTemplateVersionLister_Get t namespace templateVersionID of
                  Inl err \<Rightarrow> True
                | Inr template \<Rightarrow>
                    (case catUtil_ValidateRancherVersion ext template of
                       Some err \<Rightarrow> False
                     | None \<Rightarrow> True)))"

text \<open>One iteration of the loop of \<^verbatim>\<open>extractVersionLinks\<close>, on the version \<open>version\<close>.\<close>

definition versionLinks_step ::
  "('t, 'e) externals \<Rightarrow> ('t, 'e) templateStore \<Rightarrow> 'sch APIContext \<Rightarrow> 'sch \<Rightarrow> obj \<Rightarrow>
   val \<Rightarrow> obj \<Rightarrow> panic + obj" where
  "versionLinks_step ext t apiContext schema resource version r =
     (case assert_map version of
        Inl p \<Rightarrow> Inl p
      | Inr m \<Rightarrow>
          (let revision = (case assert_int64_ok (index m ''revision'') of
                             Some v \<Rightarrow> FormatInt v
                           | None \<Rightarrow> '''')
           in case assert_string (index m ''version'') of
                Inl p \<Rightarrow> Inl p
              | Inr versionString \<Rightarrow>
                  (let versionID =
                         (if revision \<noteq> ''''
                          then Sprintf_v_v (fmt_other ext) (index resource ''id'') revision
                          else Sprintf_v_v (fmt_other ext) (index resource ''id'') versionString)
                   in case assert_string (index m ''externalId'') of
                        Inl p \<Rightarrow> Inl p
                      | Inr externalId \<Rightarrow>
                          if templateVersionForRancherVersion ext t externalId
                          then Inr (AList.update versionString
                                      (VString (URLBuilder_ResourceLinkByID apiContext schema versionID)) r)
                          else Inr r)))"

fun versionLinks_loop ::
  "('t, 'e) externals \<Rightarrow> ('t, 'e) templateStore \<Rightarrow> 'sch APIContext \<Rightarrow> 'sch \<Rightarrow> obj \<Rightarrow>
   val list \<Rightarrow> obj \<Rightarrow> panic + obj" where
  "versionLinks_loop ext t apiContext schema resource [] r = Inr r"
| "versionLinks_loop ext t apiContext schema resource (version # versionMap) r =
     (case versionLinks_step ext t apiContext schema resource version r of
        Inl p \<Rightarrow> Inl p
      | Inr r' \<Rightarrow> versionLinks_loop ext t apiContext schema resource versionMap r')"

definition extractVersionLinks ::
  "('t, 'e) externals \<Rightarrow> ('t, 'e) templateStore \<Rightarrow> 'sch APIContext \<Rightarrow> obj \<Rightarrow> panic + obj" where
  "extractVersionLinks ext t apiContext resource =
     (let schema = Schemas_Schema apiContext TemplateVersionType in
      case assert_slice_ok (index resource CatalogTemplateFieldVersions) of
        Some versionMap \<Rightarrow> versionLinks_loop ext t apiContext schema resource versionMap []
      | None \<Rightarrow> Inr [])"

text \<open>
  The \<^verbatim>\<open>Transformer\<close> of the store built by \<^verbatim>\<open>GetTemplateStore\<close>: it returns the data and
  a nil error, unless the extraction panics.
\<close>

definition Transformer ::
  "('t, 'e) externals \<Rightarrow> ('t, 'e) templateStore \<Rightarrow> 'sch APIContext \<Rightarrow> obj \<Rightarrow>
   panic + (obj \<times> 'e option)" where
  "Transformer ext ts apiContext data =
     (case extractVersionLinks ext ts apiContext data of
        Inl p \<Rightarrow> Inl p
      | Inr links \<Rightarrow>
          Inr (AList.update CatalogTemplateFieldVersionLinks (VMap links) data, None))"

subsection \<open>Vocabulary of the statements about the store\<close>

text \<open>
  The loop asserts, without checking, that every version is a map whose \<^verbatim>\<open>version\<close> and
  \<^verbatim>\<open>externalId\<close> entries are strings; \<open>wf_template\<close> says that a response has this shape.
\<close>

definition is_string :: "val \<Rightarrow> bool" where
  "is_string v = (case v of VString s \<Rightarrow> True | _ \<Rightarrow> False)"

definition wf_version :: "val \<Rightarrow> bool" where
  "wf_version version = (case version of
       VMap m \<Rightarrow> is_string (index m ''version'') \<and> is_string (index m ''externalId'')
     | _ \<Rightarrow> False)"

definition wf_template :: "obj \<Rightarrow> bool" where
  "wf_template data = (case assert_slice_ok (index data CatalogTemplateFieldVersions) of
       Some versionMap \<Rightarrow> list_all wf_version versionMap
     | None \<Rightarrow> True)"

text \<open>
  The ID of the version \<open>m\<close> of the template \<open>resource\<close>: the template's ID followed by
  the revision when the version has one, by the version string otherwise.
\<close>

definition versionID_of :: "('t, 'e) externals \<Rightarrow> obj \<Rightarrow> obj \<Rightarrow> string \<Rightarrow> string" where
  "versionID_of ext resource m versionString =
     Sprintf_v_v (fmt_other ext) (index resource ''id'')
       (case assert_int64_ok (index m ''revision'') of
          Some v \<Rightarrow> FormatInt v
        | None \<Rightarrow> versionString)"

text \<open>
  The version \<open>m\<close> carries the version string \<open>versionString\<close> and the compatibility
  check accepts its external ID.
\<close>

definition compatible_entry ::
  "('t, 'e) externals \<Rightarrow> ('t, 'e) templateStore \<Rightarrow> obj \<Rightarrow> string \<Rightarrow> bool" where
  "compatible_entry ext t m versionString =
     (index m ''version'' = VString versionString \<and>
      (\<exists>externalId. index m ''externalId'' = VString externalId \<and>
         templateVersionForRancherVersion ext t externalId))"

subsection \<open>A concrete store\<close>

text \<open>
  A server of version v2.3.0; the template version \<^verbatim>\<open>needs-v2.4\<close> is not valid for it,
  the template version \<^verbatim>\<open>gone\<close> is not in the lister, the empty external ID does not parse.
\<close>

definition ext0 :: "(string, string) externals" where
  "ext0 = \<lparr>settings_ServerVersion_Get = ''v2.3.0'',
           catUtil_ReleaseServerVersion = (\<lambda>v. v \<noteq> ''dev''),
           catUtil_ValidateRancherVersion =
             (\<lambda>template. if template = ''needs-v2.4'' then Some ''rancher version too low'' else None),
           hcommon_ParseExternalID =
             (\<lambda>externalID. if externalID = '''' then Inl ''empty external id''
                            else Inr (externalID, ''cattle-global-data'')),
           fmt_other = (\<lambda>v. ''?'')\<rparr>"

definition ts0 :: "(string, string) templateStore" where
  "ts0 = \<lparr>CatalogTemplateVersionLister_Get =
             (\<lambda>namespace name. if name = ''gone'' then Inl ''not found'' else Inr name)\<rparr>"

definition ctx0 :: "string APIContext" where
  "ctx0 = \<lparr>Schemas_Schema = (\<lambda>typeName. typeName),
           URLBuilder_ResourceLinkByID = (\<lambda>schema ident. ''/v3/'' @ schema @ ''s/'' @ ident)\<rparr>"

definition data0 :: obj where
  "data0 = [(''id'', VString ''library-wordpress''),
            (''versions'', VSlice
               [VMap [(''version'', VString ''1.0.0''), (''externalId'', VString ''ok''),
                      (''revision'', VInt64 7)],
                VMap [(''version'', VString ''2.0.0''), (''externalId'', VString ''needs-v2.4'')],
                VMap [(''version'', VString ''3.0.0''), (''externalId'', VString ''gone'')]])]"

section \<open>Precanned alerts\<close>

subsection \<open>Alert objects\<close>

text \<open>
  The API objects, with the fields this package sets or reads. A Go struct embedded in
  another one is the parent of its record, so that its fields are fields of the child,
  as in Go. A field that a literal of the source leaves out holds Go's zero value, which
  the literals below write out. An optional rule is a pointer in Go, nil when absent.
\<close>

record TimingField =
  GroupWaitSeconds :: int
  GroupIntervalSeconds :: int
  RepeatIntervalSeconds :: int

record AlertStatus =
  AlertState :: string

record ObjectMeta =
  Name :: string
  Namespace :: string

text \<open>The common shape of the four kinds of alert object: metadata, spec and status.\<close>

record 'spec APIObject = ObjectMeta +
  Spec :: 'spec
  Status :: AlertStatus

text \<open>
  Modelled from the spec: the severity constants (critical, warning) and the comparison
  constants of the alert manager (not-equal, greater-than, greater-or-equal, has-value)
  are declared outside this file, which only names them. They are kept symbolic, one
  constructor for each constant named here.
\<close>

datatype severity = SeverityCritical | SeverityWarning

datatype comparison =
    ComparisonNotEqual
  | ComparisonGreaterThan
  | ComparisonGreaterOrEqual
  | ComparisonHasValue

record CommonGroupField =
  DisplayName :: string
  Description :: string
  TimingField :: TimingField

record ClusterGroupSpec = CommonGroupField +
  ClusterName :: string

record ProjectGroupSpec = CommonGroupField +
  ProjectName :: string

record MetricRule =
  Expression :: string
  Description :: string
  Duration :: string
  Comparison :: comparison
  ThresholdValue :: real

record SystemServiceRule =
  Condition :: string

record EventRule =
  EventType :: string
  ResourceKind :: string

record WorkloadRule =
  Selector :: "(string \<times> string) list"
  AvailablePercentage :: int

record CommonRuleField =
  DisplayName :: string
  Severity :: severity
  Inherited :: "bool option"
  TimingField :: TimingField

record ProjectAlertRuleSpec = CommonRuleField +
  ProjectName :: string
  GroupName :: string
  WorkloadRule :: "WorkloadRule option"
  MetricRule :: "MetricRule option"

record ClusterAlertRuleSpec = CommonRuleField +
  ClusterName :: string
  GroupName :: string
  EventRule :: "EventRule option"
  SystemServiceRule :: "SystemServiceRule option"
  MetricRule :: "MetricRule option"

type_synonym ClusterAlertGroup = "ClusterGroupSpec APIObject"
type_synonym ClusterAlertRule = "ClusterAlertRuleSpec APIObject"
type_synonym ProjectAlertGroup = "ProjectGroupSpec APIObject"
type_synonym ProjectAlertRule = "ProjectAlertRuleSpec APIObject"

record entry =
  group :: ClusterAlertGroup
  rules :: "ClusterAlertRule list"

text \<open>
  What the package takes from its surroundings: the default timing of the alert package
  and the group-ID function of the \<^verbatim>\<open>common\<close> package. Both are parameters.
\<close>

record alert_externals =
  defaultTimingField :: TimingField
  common_GetGroupID :: "string \<Rightarrow> string \<Rightarrow> string"

definition nodeAlertGroupName :: string where
  "nodeAlertGroupName = ''node-alert''"

definition inherited :: bool where
  "inherited = False"

subsection \<open>The static table of cluster alert groups and their rules\<close>

definition entries :: "alert_externals \<Rightarrow> entry list" where
  \<open>entries x =
   [\<lparr>group =
       \<lparr>Name = ''etcd-alert'', Namespace = '''',
        Spec = \<lparr>CommonGroupField.DisplayName = ''A set of alerts for etcd'',
                CommonGroupField.Description = ''Alert for etcd leader existence, db size'',
                CommonGroupField.TimingField = defaultTimingField x,
                ClusterGroupSpec.ClusterName = ''''\<rparr>,
        Status = \<lparr>AlertState = ''active''\<rparr>\<rparr>,
     rules =
       [\<lparr>Name = ''no-leader'', Namespace = '''',
         Spec = \<lparr>DisplayName = ''Etcd member has no leader'',
                 Severity = SeverityCritical, Inherited = None,
                 TimingField = defaultTimingField x,
                 ClusterName = '''', GroupName = '''',
                 EventRule = None,
                 SystemServiceRule = None,
                 MetricRule = Some \<lparr>Expression = ''etcd_server_has_leader'',
                           Description = ''Etcd member has no leader'',
                           Duration = ''3m'', Comparison = ComparisonNotEqual, ThresholdValue = 1\<rparr>\<rparr>,
         Status = \<lparr>AlertState = ''active''\<rparr>\<rparr>,
        \<lparr>Name = ''high-number-of-leader-changes'', Namespace = '''',
         Spec = \<lparr>DisplayName = ''A high number of leader changes within the etcd cluster are happening'',
                 Severity = SeverityWarning, Inherited = None,
                 TimingField = defaultTimingField x,
                 ClusterName = '''', GroupName = '''',
                 EventRule = None,
                 SystemServiceRule = None,
                 MetricRule = Some \<lparr>Expression = ''increase(etcd_server_leader_changes_seen_total[1h])'',
                           Description = ''Etcd instance has seen high number of leader changes within the last hour'',
                           Duration = ''3m'', Comparison = ComparisonGreaterThan, ThresholdValue = 3\<rparr>\<rparr>,
         Status = \<lparr>AlertState = ''active''\<rparr>\<rparr>,
        \<lparr>Name = ''db-over-size'', Namespace = '''',
         Spec = \<lparr>DisplayName = ''Database usage close to the quota 500M'',
                 Severity = SeverityWarning, Inherited = None,
                 TimingField = defaultTimingField x,
                 ClusterName = '''', GroupName = '''',
                 EventRule = None,
                 SystemServiceRule = None,
                 MetricRule = Some \<lparr>Expression = ''sum(etcd_debugging_mvcc_db_total_size_in_bytes)'',
                           Description = ''Shows the etcd database size including free space waiting for defragmentation close to the quota'',
                           Duration = ''3m'', Comparison = ComparisonGreaterThan, ThresholdValue = 524288000\<rparr>\<rparr>,
         Status = \<lparr>AlertState = ''active''\<rparr>\<rparr>,
        \<lparr>Name = ''etcd-system-service'', Namespace = '''',
         Spec = \<lparr>DisplayName = ''Etcd is unavailable'',
                 Severity = SeverityCritical, Inherited = Some inherited,
                 TimingField = \<lparr>GroupWaitSeconds = 600, GroupIntervalSeconds = 180, RepeatIntervalSeconds = 3600\<rparr>,
                 ClusterName = '''', GroupName = '''',
                 EventRule = None,
                 SystemServiceRule = Some \<lparr>Condition = ''etcd''\<rparr>,
                 MetricRule = None\<rparr>,
         Status = \<lparr>AlertState = ''active''\<rparr>\<rparr>]\<rparr>,
    \<lparr>group =
       \<lparr>Name = ''kube-components-alert'', Namespace = '''',
        Spec = \<lparr>CommonGroupField.DisplayName = ''A set of alerts for kube components'',
                CommonGroupField.Description = ''Alert for kube components api server, scheduler, controller manager'',
                CommonGroupField.TimingField = defaultTimingField x,
                ClusterGroupSpec.ClusterName = ''''\<rparr>,
        Status = \<lparr>AlertState = ''active''\<rparr>\<rparr>,
     rules =
       [\<lparr>Name = ''scheduler-system-service'', Namespace = '''',
         Spec = \<lparr>DisplayName = ''Scheduler is unavailable'',
                 Severity = SeverityCritical, Inherited = None,
                 TimingField = defaultTimingField x,
                 ClusterName = '''', GroupName = '''',
                 EventRule = None,
                 SystemServiceRule = Some \<lparr>Condition = ''scheduler''\<rparr>,
                 MetricRule = None\<rparr>,
         Status = \<lparr>AlertState = ''active''\<rparr>\<rparr>,
        \<lparr>Name = ''controllermanager-system-service'', Namespace = '''',
         Spec = \<lparr>DisplayName = ''Controller Manager is unavailable'',
                 Severity = SeverityCritical, Inherited = None,
                 TimingField = defaultTimingField x,
                 ClusterName = '''', GroupName = '''',
                 EventRule = None,
                 SystemServiceRule = Some \<lparr>Condition = ''controller-manager''\<rparr>,
                 MetricRule = None\<rparr>,
         Status = \<lparr>AlertState = ''active''\<rparr>\<rparr>]\<rparr>,
    \<lparr>group =
       \<lparr>Name = ''node-alert'', Namespace = '''',
        Spec = \<lparr>CommonGroupField.DisplayName = ''A set of alerts for node'',
                CommonGroupField.Description = ''Alert for Node Memory, CPU, Disk Usage'',
                CommonGroupField.TimingField = defaultTimingField x,
                ClusterGroupSpec.ClusterName = ''''\<rparr>,
        Status = \<lparr>AlertState = ''active''\<rparr>\<rparr>,
     rules =
       [\<lparr>Name = ''node-disk-running-full'', Namespace = '''',
         Spec = \<lparr>DisplayName = ''Node disk is running full within 24 hours'',
                 Severity = SeverityCritical, Inherited = None,
                 TimingField = defaultTimingField x,
                 ClusterName = '''', GroupName = '''',
                 EventRule = None,
                 SystemServiceRule = None,
                 MetricRule = Some \<lparr>Expression = ''predict_linear(node_filesystem_free_bytes{mountpoint!~"^/etc/(?:resolv.conf|hosts|hostname)$"}[6h], 3600 * 24) < 0'',
                           Description = ''Device on node is running full within the next 24 hours'',
                           Duration = ''10m'', Comparison = ComparisonHasValue, ThresholdValue = 0\<rparr>\<rparr>,
         Status = \<lparr>AlertState = ''active''\<rparr>\<rparr>,
        \<lparr>Name = ''high-memmory'', Namespace = '''',
         Spec = \<lparr>DisplayName = ''High node memory utilization'',
                 Severity = SeverityWarning, Inherited = None,
                 TimingField = defaultTimingField x,
                 ClusterName = '''', GroupName = '''',
                 EventRule = None,
                 SystemServiceRule = None,
                 MetricRule = Some \<lparr>Expression = ''(1 - sum(node_memory_MemAvailable_bytes) by (instance) / sum(node_memory_MemTotal_bytes) by (instance)) * 100'',
                           Description = ''Node memory utilization is over 80%'',
                           Duration = ''3m'', Comparison = ComparisonGreaterOrEqual, ThresholdValue = 80\<rparr>\<rparr>,
         Status = \<lparr>AlertState = ''active''\<rparr>\<rparr>,
        \<lparr>Name = ''high-cpu-load'', Namespace = '''',
         Spec = \<lparr>DisplayName = ''High cpu load'',
                 Severity = SeverityWarning, Inherited = None,
                 TimingField = defaultTimingField x,
                 ClusterName = '''', GroupName = '''',
                 EventRule = None,
                 SystemServiceRule = None,
                 MetricRule = Some \<lparr>Expression = ''sum(node_load1) by (node)  / sum(machine_cpu_cores) by (node) * 100'',
                           Description = ''The cpu load is higher than 100'',
                           Duration = ''3m'', Comparison = ComparisonGreaterThan, ThresholdValue = 100\<rparr>\<rparr>,
         Status = \<lparr>AlertState = ''active''\<rparr>\<rparr>]\<rparr>,
    \<lparr>group =
       \<lparr>Name = ''event-alert'', Namespace = '''',
        Spec = \<lparr>CommonGroupField.DisplayName = ''A set of alerts when event happened'',
                CommonGroupField.Description = ''Alert for receiving resource event'',
                CommonGroupField.TimingField = defaultTimingField x,
                ClusterGroupSpec.ClusterName = ''''\<rparr>,
        Status = \<lparr>AlertState = ''active''\<rparr>\<rparr>,
     rules =
       [\<lparr>Name = ''deployment-event-alert'', Namespace = '''',
         Spec = \<lparr>DisplayName = ''Get warning deployment event'',
                 Severity = SeverityWarning, Inherited = None,
                 TimingField = defaultTimingField x,
                 ClusterName = '''', GroupName = '''',
                 EventRule = Some \<lparr>EventType = ''Warning'', ResourceKind = ''Deployment''\<rparr>,
                 SystemServiceRule = None,
                 MetricRule = None\<rparr>,
         Status = \<lparr>AlertState = ''active''\<rparr>\<rparr>]\<rparr>]\<close>

subsection \<open>Clients, errors and effects\<close>

text \<open>
  An error of the API machinery carries a reason, which \<^verbatim>\<open>apierrors.IsNotFound\<close> and
  \<^verbatim>\<open>apierrors.IsAlreadyExists\<close> test, and a message, which \<^verbatim>\<open>%v\<close> prints.
\<close>

datatype StatusReason = StatusReasonNotFound | StatusReasonAlreadyExists | StatusReasonUnknown

datatype api_error = StatusError StatusReason string

fun IsNotFound :: "api_error \<Rightarrow> bool" where
  "IsNotFound (StatusError reason message) = (reason = StatusReasonNotFound)"

fun IsAlreadyExists :: "api_error \<Rightarrow> bool" where
  "IsAlreadyExists (StatusError reason message) = (reason = StatusReasonAlreadyExists)"

fun Error :: "api_error \<Rightarrow> string" where
  "Error (StatusError reason message) = message"

text \<open>
  \<^verbatim>\<open>errors.Wrapf(err, format, ...)\<close>, with the message already formatted. Wrapping a nil
  error gives nil, which is \<open>map_option\<close> of \<open>Wrapf\<close> on an optional error.
\<close>

datatype wrapped_error = Wrapf api_error string

text \<open>A node, with its labels; a label selector is a set of required labels.\<close>

record Node = ObjectMeta +
  Labels :: "(string \<times> string) list"

type_synonym selector = "(string \<times> string) list"

definition NamespaceAll :: string where
  "NamespaceAll = ''''"

definition windowNodeLabel :: selector where
  "windowNodeLabel = [(''kubernetes.io/os'', ''windows'')]"

text \<open>
  The effects of the package are calls on its clients and log lines. Every function
  below returns the state of the object store it leaves and the list of its effects in
  program order: each call on a lister or a client with the error it returned (\<open>None\<close>
  for nil), and each warning with its text.
\<close>

datatype event =
    GetClusterAlertGroup string string "api_error option"
  | CreateClusterAlertGroup ClusterAlertGroup "api_error option"
  | GetClusterAlertRule string string "api_error option"
  | CreateClusterAlertRule ClusterAlertRule "api_error option"
  | CreateProjectAlertGroup ProjectAlertGroup "api_error option"
  | CreateProjectAlertRule ProjectAlertRule "api_error option"
  | ListNodes string selector "api_error option"
  | Warnf string

text \<open>
  The clients and listers are interfaces of the platform: they are parameters, functions
  on a store state of any type \<open>'s\<close>. A lister's \<^verbatim>\<open>Get(namespace, name)\<close> reads the state
  and returns an object (\<open>None\<close> for nil) and an error; a client's \<^verbatim>\<open>Create\<close> returns an
  error and the new state (the object it returns is dropped by every caller here).
\<close>

record 's initClusterAlerts =
  clusterAlertGroups_Create :: "ClusterAlertGroup \<Rightarrow> 's \<Rightarrow> api_error option \<times> 's"
  clusterAlertGroupLister_Get ::
    "string \<Rightarrow> string \<Rightarrow> 's \<Rightarrow> ClusterAlertGroup option \<times> api_error option"
  clusterAlertRules_Create :: "ClusterAlertRule \<Rightarrow> 's \<Rightarrow> api_error option \<times> 's"
  clusterAlertRuleLister_Get ::
    "string \<Rightarrow> string \<Rightarrow> 's \<Rightarrow> ClusterAlertRule option \<times> api_error option"

subsection \<open>Seeding the cluster alerts\<close>

text \<open>
  The first half of the body of the outer loop: the group of an entry. The local variable
  \<^verbatim>\<open>group\<close> of the source is \<open>grp\<close> here, \<open>group\<close> being the field of an entry. The
  group is returned too, since the inner loop reads its name.
\<close>

definition initClusterPreCanAlerts_group ::
  "'s initClusterAlerts \<Rightarrow> string \<Rightarrow> ClusterAlertGroup \<Rightarrow> 's \<Rightarrow>
   ClusterAlertGroup \<times> 's \<times> event list" where
  "initClusterPreCanAlerts_group initAlerts clusterName grp s =
     (let err = snd (clusterAlertGroupLister_Get initAlerts clusterName (Name grp) s);
          get = GetClusterAlertGroup clusterName (Name grp) err
      in case err of
           None \<Rightarrow> (grp, s, [get])
         | Some e \<Rightarrow>
             if \<not> IsNotFound e
             then (grp, s,
                   [get, Warnf (''Failed to get precan alert group '' @ Name grp @ '': '' @ Error e)])
             else
               let grp' = grp\<lparr>Spec := (Spec grp)\<lparr>ClusterGroupSpec.ClusterName := clusterName\<rparr>\<rparr>;
                   (cerr, s') = clusterAlertGroups_Create initAlerts grp' s;
                   create = CreateClusterAlertGroup grp' cerr
               in case cerr of
                    None \<Rightarrow> (grp', s', [get, create])
                  | Some ce \<Rightarrow>
                      if \<not> IsAlreadyExists ce
                      then (grp', s',
                            [get, create,
                             Warnf (''Failed to create precan alert group '' @ Name grp' @ '': '' @ Error ce)])
                      else (grp', s', [get, create]))"

text \<open>The body of the inner loop: one rule of the entry, \<open>grp\<close> being the entry's group.\<close>

definition initClusterPreCanAlerts_rule ::
  "alert_externals \<Rightarrow> 's initClusterAlerts \<Rightarrow> string \<Rightarrow> ClusterAlertGroup \<Rightarrow>
   ClusterAlertRule \<Rightarrow> 's \<Rightarrow> 's \<times> event list" where
  "initClusterPreCanAlerts_rule x initAlerts clusterName grp rule s =
     (let err = snd (clusterAlertRuleLister_Get initAlerts clusterName (Name rule) s);
          get = GetClusterAlertRule clusterName (Name rule) err
      in case err of
           None \<Rightarrow> (s, [get])
         | Some e \<Rightarrow>
             if \<not> IsNotFound e
             then (s, [get, Warnf (''Failed to get precan alert rule '' @ Name rule @ '': '' @ Error e)])
             else
               let rule1 = rule\<lparr>Spec := (Spec rule)\<lparr>ClusterName := clusterName\<rparr>\<rparr>;
                   rule2 = rule1\<lparr>Spec := (Spec rule1)
                             \<lparr>GroupName := common_GetGroupID x clusterName (Name grp)\<rparr>\<rparr>;
                   (cerr, s') = clusterAlertRules_Create initAlerts rule2 s;
                   create = CreateClusterAlertRule rule2 cerr
               in case cerr of
                    None \<Rightarrow> (s', [get, create])
                  | Some ce \<Rightarrow>
                      if \<not> IsAlreadyExists ce
                      then (s', [get, create,
                                 Warnf (''Failed to create precan alert rule '' @ Name rule2 @ '': '' @ Error ce)])
                      else (s', [get, create]))"

text \<open>The inner loop, over the rules of an entry.\<close>

fun initClusterPreCanAlerts_rules ::
  "alert_externals \<Rightarrow> 's initClusterAlerts \<Rightarrow> string \<Rightarrow> ClusterAlertGroup \<Rightarrow>
   ClusterAlertRule list \<Rightarrow> 's \<Rightarrow> 's \<times> event list" where
  "initClusterPreCanAlerts_rules x initAlerts clusterName grp [] s = (s, [])"
| "initClusterPreCanAlerts_rules x initAlerts clusterName grp (rule # rest) s =
     (let (s1, evs1) = initClusterPreCanAlerts_rule x initAlerts clusterName grp rule s;
          (s2, evs2) = initClusterPreCanAlerts_rules x initAlerts clusterName grp rest s1
      in (s2, evs1 @ evs2))"

text \<open>The outer loop, over a list of entries.\<close>

fun initClusterPreCanAlerts_entries ::
  "alert_externals \<Rightarrow> 's initClusterAlerts \<Rightarrow> string \<Rightarrow> entry list \<Rightarrow> 's \<Rightarrow>
   's \<times> event list" where
  "initClusterPreCanAlerts_entries x initAlerts clusterName [] s = (s, [])"
| "initClusterPreCanAlerts_entries x initAlerts clusterName (entry # rest) s =
     (let (grp', s1, evs1) = initClusterPreCanAlerts_group initAlerts clusterName (group entry) s;
          (s2, evs2) = initClusterPreCanAlerts_rules x initAlerts clusterName grp' (rules entry) s1;
          (s3, evs3) = initClusterPreCanAlerts_entries x initAlerts clusterName rest s2
      in (s3, evs1 @ evs2 @ evs3))"

definition initClusterPreCanAlerts ::
  "alert_externals \<Rightarrow> 's initClusterAlerts \<Rightarrow> string \<Rightarrow> 's \<Rightarrow> 's \<times> event list" where
  "initClusterPreCanAlerts x initAlerts clusterName s =
     initClusterPreCanAlerts_entries x initAlerts clusterName (entries x) s"

subsection \<open>Built-in project alerts\<close>

record 's ProjectLifecycle =
  projectAlertGroups_Create :: "ProjectAlertGroup \<Rightarrow> 's \<Rightarrow> api_error option \<times> 's"
  projectAlertRules_Create :: "ProjectAlertRule \<Rightarrow> 's \<Rightarrow> api_error option \<times> 's"
  clusterName :: string

text \<open>
  \<^verbatim>\<open>ProjectLifecycle.Create\<close>. A project is any object with metadata; the function
  returns the object and the error of the Go function, then the state and the effects.
\<close>

definition ProjectLifecycle_Create ::
  "alert_externals \<Rightarrow> 's ProjectLifecycle \<Rightarrow> 'a ObjectMeta_scheme \<Rightarrow> 's \<Rightarrow>
   ('a ObjectMeta_scheme \<times> api_error option) \<times> 's \<times> event list" where
  \<open>ProjectLifecycle_Create x l obj s =
     (let name = ''projectalert-workload-alert'';
          projectName = Name obj;
          projectID = Namespace obj @ '':'' @ Name obj;
          grp = \<lparr>Name = name, Namespace = projectName,
                 Spec = \<lparr>CommonGroupField.DisplayName = ''A set of alerts for workload, pod, container'',
                         CommonGroupField.Description = ''Alert for cpu, memory, disk, network'',
                         CommonGroupField.TimingField = defaultTimingField x,
                         ProjectGroupSpec.ProjectName = projectID\<rparr>,
                 Status = \<lparr>AlertState = ''active''\<rparr>\<rparr>;
          (err1, s1) = projectAlertGroups_Create l grp s;
          evs1 = CreateProjectAlertGroup grp err1 #
                 (case err1 of
                    None \<Rightarrow> []
                  | Some e \<Rightarrow>
                      if \<not> IsAlreadyExists e
                      then [Warnf (''Failed to create built-in rules for deployment: '' @ Error e)]
                      else []);
          name = ''less-than-half-workload-available'';
          rule = \<lparr>Name = name, Namespace = projectName,
                  Spec = \<lparr>DisplayName = ''Less than half workload available'',
                          Severity = SeverityCritical, Inherited = None,
                          TimingField = defaultTimingField x,
                          ProjectAlertRuleSpec.ProjectName = projectID,
                          ProjectAlertRuleSpec.GroupName = common_GetGroupID x projectName (Name grp),
                          WorkloadRule = Some \<lparr>Selector = [(''app'', ''workload'')],
                                               AvailablePercentage = 50\<rparr>,
                          ProjectAlertRuleSpec.MetricRule = None\<rparr>,
                  Status = \<lparr>AlertState = ''active''\<rparr>\<rparr>;
          (err2, s2) = projectAlertRules_Create l rule s1;
          evs2 = CreateProjectAlertRule rule err2 #
                 (case err2 of
                    None \<Rightarrow> []
                  | Some e \<Rightarrow>
                      if \<not> IsAlreadyExists e
                      then [Warnf (''Failed to create precan rules for '' @ name @ '': '' @ Error e)]
                      else []);
          name = ''memory-close-to-resource-limited'';
          rule = \<lparr>Name = name, Namespace = projectName,
                  Spec = \<lparr>DisplayName = ''Memory usage close to the quota'',
                          Severity = SeverityWarning, Inherited = None,
                          TimingField = defaultTimingField x,
                          ProjectAlertRuleSpec.ProjectName = projectID,
                          ProjectAlertRuleSpec.GroupName = common_GetGroupID x projectName (Name grp),
                          WorkloadRule = None,
                          ProjectAlertRuleSpec.MetricRule =
                            Some \<lparr>Expression = ''sum(container_memory_working_set_bytes) by (pod_name, container_name) / sum(label_join(label_join(kube_pod_container_resource_limits_memory_bytes,"pod_name", "", "pod"),"container_name", "", "container")) by (pod_name, container_name)'',
                                  Description = ''Container using memory close to the quota'',
                                  Duration = ''3m'', Comparison = ComparisonGreaterThan,
                                  ThresholdValue = 1\<rparr>\<rparr>,
                  Status = \<lparr>AlertState = ''active''\<rparr>\<rparr>;
          (err3, s3) = projectAlertRules_Create l rule s2;
          evs3 = CreateProjectAlertRule rule err3 #
                 (case err3 of
                    None \<Rightarrow> []
                  | Some e \<Rightarrow>
                      if \<not> IsAlreadyExists e
                      then [Warnf (''Failed to create precan rules for '' @ name @ '': '' @ Error e)]
                      else [])
      in ((obj, None), s3, evs1 @ evs2 @ evs3))\<close>

definition ProjectLifecycle_Updated ::
  "'s ProjectLifecycle \<Rightarrow> 'a ObjectMeta_scheme \<Rightarrow> 's \<Rightarrow>
   ('a ObjectMeta_scheme \<times> api_error option) \<times> 's \<times> event list" where
  "ProjectLifecycle_Updated l obj s = ((obj, None), s, [])"

definition ProjectLifecycle_Remove ::
  "'s ProjectLifecycle \<Rightarrow> 'a ObjectMeta_scheme \<Rightarrow> 's \<Rightarrow>
   ('a ObjectMeta_scheme \<times> api_error option) \<times> 's \<times> event list" where
  "ProjectLifecycle_Remove l obj s = ((obj, None), s, [])"

subsection \<open>The alert rule for Windows nodes\<close>

text \<open>
  \<^verbatim>\<open>windowsNodeSyner\<close>: the rule client with the lister of its controller, and the node
  lister, whose \<^verbatim>\<open>List(namespace, selector)\<close> returns nodes and an error.
\<close>

record 's windowsNodeSyner =
  clusterName :: string
  clusterAlertRules_Create :: "ClusterAlertRule \<Rightarrow> 's \<Rightarrow> api_error option \<times> 's"
  clusterAlertRules_Controller_Lister_Get ::
    "string \<Rightarrow> string \<Rightarrow> 's \<Rightarrow> ClusterAlertRule option \<times> api_error option"
  nodeLister_List :: "string \<Rightarrow> selector \<Rightarrow> 's \<Rightarrow> Node list \<times> api_error option"

definition initClusterWindowsAlert ::
  "alert_externals \<Rightarrow> 's windowsNodeSyner \<Rightarrow> 's \<Rightarrow> wrapped_error option \<times> 's \<times> event list" where
  \<open>initClusterWindowsAlert x l s =
     (let groupName = common_GetGroupID x (windowsNodeSyner.clusterName l) nodeAlertGroupName;
          name = ''windows-node-disk-running-full'';
          (exsitWindowsAlert, err) =
             clusterAlertRules_Controller_Lister_Get l (windowsNodeSyner.clusterName l) name s;
          get = GetClusterAlertRule (windowsNodeSyner.clusterName l) name err
      in if (case err of None \<Rightarrow> False | Some e \<Rightarrow> \<not> IsNotFound e)
         then (map_option (\<lambda>e. Wrapf e (''Failed to get alert rules '' @ name)) err, s, [get])
         else if exsitWindowsAlert \<noteq> None
         then (None, s, [get])
         else
           let rule = \<lparr>Name = name, Namespace = '''',
                       Spec = \<lparr>DisplayName = ''Windows node disk is running full within 24 hours'',
                               Severity = SeverityCritical, Inherited = None,
                               TimingField = defaultTimingField x,
                               ClusterName = windowsNodeSyner.clusterName l,
                               GroupName = groupName,
                               EventRule = None,
                               SystemServiceRule = None,
                               MetricRule =
                                 Some \<lparr>Expression = ''predict_linear(node_filesystem_free_bytes{job=~"expose-node-metrics-windows", device!~"HarddiskVolume.+"}[6h], 3600 * 24) < 0'',
                                       Description = ''Device on node is running full within the next 24 hours'',
                                       Duration = ''10m'', Comparison = ComparisonHasValue,
                                       ThresholdValue = 0\<rparr>\<rparr>,
                       Status = \<lparr>AlertState = ''active''\<rparr>\<rparr>;
               (cerr, s') = windowsNodeSyner.clusterAlertRules_Create l rule s;
               create = CreateClusterAlertRule rule cerr
           in if (case cerr of None \<Rightarrow> False | Some ce \<Rightarrow> \<not> IsAlreadyExists ce)
              then (map_option (\<lambda>ce. Wrapf ce (''Failed to create precan rules '' @ name)) cerr,
                    s', [get, create])
              else (None, s', [get, create]))\<close>

text \<open>
  \<^verbatim>\<open>windowsNodeSyner.Sync\<close>: \<open>obj\<close> is a pointer to a node, \<open>None\<close> when nil. The result
  is the object and the error of the Go function, then the state and the effects.
\<close>

definition Sync ::
  "alert_externals \<Rightarrow> 's windowsNodeSyner \<Rightarrow> string \<Rightarrow> Node option \<Rightarrow> 's \<Rightarrow>
   (Node option \<times> wrapped_error option) \<times> 's \<times> event list" where
  "Sync x l key obj s =
     (let (windowsNodes, err) = nodeLister_List l NamespaceAll windowNodeLabel s;
          list = ListNodes NamespaceAll windowNodeLabel err
      in case err of
           Some e \<Rightarrow> ((None, Some (Wrapf e ''failed to list nodes'')), s, [list])
         | None \<Rightarrow>
             if length windowsNodes \<noteq> 0
             then (let (werr, s', evs) = initClusterWindowsAlert x l s
                   in ((obj, werr), s', list # evs))
             else ((obj, None), s, [list]))"

section \<open>Vocabulary of the statements about the alerts\<close>

subsection \<open>Reading a list of effects\<close>

fun group_get_of :: "event \<Rightarrow> (string \<times> string) list" where
  "group_get_of (GetClusterAlertGroup namespace name err) = [(namespace, name)]"
| "group_get_of _ = []"

fun rule_get_of :: "event \<Rightarrow> (string \<times> string) list" where
  "rule_get_of (GetClusterAlertRule namespace name err) = [(namespace, name)]"
| "rule_get_of _ = []"

text \<open>The lister calls of a list of effects, in order: namespace and name.\<close>

definition group_gets :: "event list \<Rightarrow> (string \<times> string) list" where
  "group_gets evs = concat (map group_get_of evs)"

definition rule_gets :: "event list \<Rightarrow> (string \<times> string) list" where
  "rule_gets evs = concat (map rule_get_of evs)"

fun is_create :: "event \<Rightarrow> bool" where
  "is_create (CreateClusterAlertGroup g err) = True"
| "is_create (CreateClusterAlertRule r err) = True"
| "is_create (CreateProjectAlertGroup g err) = True"
| "is_create (CreateProjectAlertRule r err) = True"
| "is_create _ = False"

fun warning_of :: "event \<Rightarrow> string list" where
  "warning_of (Warnf message) = [message]"
| "warning_of _ = []"

text \<open>The log lines of a list of effects, in order.\<close>

definition warnings :: "event list \<Rightarrow> string list" where
  "warnings evs = concat (map warning_of evs)"

text \<open>A lister reports an object not found: it returns an error that is a not-found error.\<close>

definition reports_not_found :: "api_error option \<Rightarrow> bool" where
  "reports_not_found err = (case err of None \<Rightarrow> False | Some e \<Rightarrow> IsNotFound e)"

subsection \<open>The objects that seeding creates\<close>

text \<open>A group of the table with the cluster name filled in.\<close>

definition seeded_group :: "string \<Rightarrow> ClusterAlertGroup \<Rightarrow> ClusterAlertGroup" where
  "seeded_group cn g = g\<lparr>Spec := (Spec g)\<lparr>ClusterGroupSpec.ClusterName := cn\<rparr>\<rparr>"

text \<open>A rule of the table with the cluster name and the ID of its group filled in.\<close>

definition seeded_rule ::
  "alert_externals \<Rightarrow> string \<Rightarrow> ClusterAlertGroup \<Rightarrow> ClusterAlertRule \<Rightarrow> ClusterAlertRule" where
  "seeded_rule x cn g r =
     r\<lparr>Spec := (Spec r)\<lparr>ClusterAlertRuleSpec.ClusterName := cn,
                        ClusterAlertRuleSpec.GroupName := common_GetGroupID x cn (Name g)\<rparr>\<rparr>"

text \<open>What a run does when every lister call finds its object: the calls, and nothing else.\<close>

definition lookups :: "string \<Rightarrow> entry list \<Rightarrow> event list" where
  "lookups cn es =
     concat (map (\<lambda>e. GetClusterAlertGroup cn (Name (group e)) None #
                       map (\<lambda>r. GetClusterAlertRule cn (Name r) None) (rules e)) es)"

subsection \<open>The reference reconciliation\<close>

text \<open>
  The reconciliation function in the words of the specification: for each entry of a
  table of keys and values, if the key does not exist then create the value under the
  key. It is parameterized over an abstract client of the store.
\<close>

datatype key = GroupKey string string | RuleKey string string

datatype "value" = GroupValue ClusterAlertGroup | RuleValue ClusterAlertRule

record 's store_client =
  client_exists :: "key \<Rightarrow> 's \<Rightarrow> bool"
  client_create :: "key \<Rightarrow> value \<Rightarrow> 's \<Rightarrow> 's"

fun reconcile_reference :: "'s store_client \<Rightarrow> (key \<times> value) list \<Rightarrow> 's \<Rightarrow> 's" where
  "reconcile_reference c [] s = s"
| "reconcile_reference c ((k, v) # table) s =
     reconcile_reference c table (if \<not> client_exists c k s then client_create c k v s else s)"

text \<open>
  The table of the reference: every group of the static table, followed by its rules,
  keyed by cluster and name, with the cluster name and the group ID filled in.
\<close>

definition precan_table :: "alert_externals \<Rightarrow> string \<Rightarrow> (key \<times> value) list" where
  "precan_table x cn =
     concat (map (\<lambda>e. (GroupKey cn (Name (group e)), GroupValue (seeded_group cn (group e))) #
                       map (\<lambda>r. (RuleKey cn (Name r), RuleValue (seeded_rule x cn (group e) r)))
                           (rules e))
                 (entries x))"

text \<open>
  The listers and clients of \<open>initClusterAlerts\<close> as a client of the store: a key
  exists unless its lister reports it not found, and creating calls \<open>Create\<close> of the
  client of the value's kind.
\<close>

definition store_client_of :: "'s initClusterAlerts \<Rightarrow> 's store_client" where
  "store_client_of initAlerts =
     \<lparr>client_exists = (\<lambda>k s. case k of
          GroupKey namespace name \<Rightarrow>
            \<not> reports_not_found (snd (clusterAlertGroupLister_Get initAlerts namespace name s))
        | RuleKey namespace name \<Rightarrow>
            \<not> reports_not_found (snd (clusterAlertRuleLister_Get initAlerts namespace name s))),
      client_create = (\<lambda>k v s. case v of
          GroupValue g \<Rightarrow> snd (clusterAlertGroups_Create initAlerts g s)
        | RuleValue r \<Rightarrow> snd (initClusterAlerts.clusterAlertRules_Create initAlerts r s))\<rparr>"

subsection \<open>The calls of a run\<close>

text \<open>
  The calls that get-or-create makes on the listers and clients of \<open>initClusterAlerts\<close>
  for a table of keys and values, from the state \<open>s\<close>: for each entry, the lister call
  with the error that the lister returns in the current state and, when that error
  reports not found, the \<open>Create\<close> call with the error that the client returns; the
  next entry starts from the state that this \<open>Create\<close> leaves.
\<close>

fun is_warning :: "event \<Rightarrow> bool" where
  "is_warning (Warnf message) = True"
| "is_warning _ = False"

definition lister_answer :: "'s initClusterAlerts \<Rightarrow> key \<Rightarrow> 's \<Rightarrow> api_error option" where
  "lister_answer initAlerts k s = (case k of
       GroupKey namespace name \<Rightarrow> snd (clusterAlertGroupLister_Get initAlerts namespace name s)
     | RuleKey namespace name \<Rightarrow> snd (clusterAlertRuleLister_Get initAlerts namespace name s))"

definition get_event :: "key \<Rightarrow> api_error option \<Rightarrow> event" where
  "get_event k err = (case k of
       GroupKey namespace name \<Rightarrow> GetClusterAlertGroup namespace name err
     | RuleKey namespace name \<Rightarrow> GetClusterAlertRule namespace name err)"

definition client_answer :: "'s initClusterAlerts \<Rightarrow> value \<Rightarrow> 's \<Rightarrow> api_error option \<times> 's" where
  "client_answer initAlerts v s = (case v of
       GroupValue g \<Rightarrow> clusterAlertGroups_Create initAlerts g s
     | RuleValue r \<Rightarrow> initClusterAlerts.clusterAlertRules_Create initAlerts r s)"

definition create_event :: "value \<Rightarrow> api_error option \<Rightarrow> event" where
  "create_event v err = (case v of
       GroupValue g \<Rightarrow> CreateClusterAlertGroup g err
     | RuleValue r \<Rightarrow> CreateClusterAlertRule r err)"

fun seeding_calls :: "'s initClusterAlerts \<Rightarrow> (key \<times> value) list \<Rightarrow> 's \<Rightarrow> event list" where
  "seeding_calls initAlerts [] s = []"
| "seeding_calls initAlerts ((k, v) # table) s =
     (if reports_not_found (lister_answer initAlerts k s)
      then get_event k (lister_answer initAlerts k s) #
           create_event v (fst (client_answer initAlerts v s)) #
           seeding_calls initAlerts table (snd (client_answer initAlerts v s))
      else get_event k (lister_answer initAlerts k s) # seeding_calls initAlerts table s)"

subsection \<open>Nodes and selectors\<close>

text \<open>A selector matches the labels that hold each of its required labels.\<close>

definition matches :: "selector \<Rightarrow> (string \<times> string) list \<Rightarrow> bool" where
  "matches sel labels = list_all (\<lambda>(k, v). map_of labels k = Some v) sel"

subsection \<open>A concrete object store\<close>

text \<open>
  An object store in memory, with listers that read it: the keys are namespace and
  name, \<open>Create\<close> of a client bound to the namespace \<open>namespace\<close> adds an object that is
  absent and fails with an already-exists error on one that is present.
\<close>

record mem =
  mem_groups :: "((string \<times> string) \<times> ClusterAlertGroup) list"
  mem_rules :: "((string \<times> string) \<times> ClusterAlertRule) list"

definition mem_empty :: mem where
  "mem_empty = \<lparr>mem_groups = [], mem_rules = []\<rparr>"

definition not_found :: api_error where
  "not_found = StatusError StatusReasonNotFound ''not found''"

definition already_exists :: api_error where
  "already_exists = StatusError StatusReasonAlreadyExists ''already exists''"

definition mem_clients :: "string \<Rightarrow> mem initClusterAlerts" where
  "mem_clients namespace =
     \<lparr>clusterAlertGroups_Create = (\<lambda>g s.
          if map_of (mem_groups s) (namespace, Name g) \<noteq> None then (Some already_exists, s)
          else (None, s\<lparr>mem_groups := mem_groups s @ [((namespace, Name g), g)]\<rparr>)),
      clusterAlertGroupLister_Get = (\<lambda>ns name s.
          case map_of (mem_groups s) (ns, name) of
            Some g \<Rightarrow> (Some g, None)
          | None \<Rightarrow> (None, Some not_found)),
      clusterAlertRules_Create = (\<lambda>r s.
          if map_of (mem_rules s) (namespace, Name r) \<noteq> None then (Some already_exists, s)
          else (None, s\<lparr>mem_rules := mem_rules s @ [((namespace, Name r), r)]\<rparr>)),
      clusterAlertRuleLister_Get = (\<lambda>ns name s.
          case map_of (mem_rules s) (ns, name) of
            Some r \<Rightarrow> (Some r, None)
          | None \<Rightarrow> (None, Some not_found))\<rparr>"

definition x0 :: alert_externals where
  "x0 = \<lparr>defaultTimingField =
            \<lparr>GroupWaitSeconds = 180, GroupIntervalSeconds = 180, RepeatIntervalSeconds = 3600\<rparr>,
          common_GetGroupID = (\<lambda>namespace name. namespace @ '':'' @ name)\<rparr>"

text \<open>A lifecycle whose clients fail on every call, with an error that is not already-exists.\<close>

definition refused :: api_error where
  "refused = StatusError StatusReasonUnknown ''connection refused''"

definition l_refused :: "mem ProjectLifecycle" where
  "l_refused = \<lparr>projectAlertGroups_Create = (\<lambda>g s. (Some refused, s)),
                 projectAlertRules_Create = (\<lambda>r s. (Some refused, s)),
                 clusterName = ''c-1''\<rparr>"

text \<open>
  A lifecycle whose clients record the names of the objects they create, in the order
  of the calls.
\<close>

definition l_recording :: "(string list) ProjectLifecycle" where
  "l_recording = \<lparr>projectAlertGroups_Create = (\<lambda>g s. (None, s @ [Name g])),
                   projectAlertRules_Create = (\<lambda>r s. (None, s @ [Name r])),
                   clusterName = ''c-1''\<rparr>"

definition project0 :: ObjectMeta where
  "project0 = \<lparr>Name = ''p-abcde'', Namespace = ''c-1''\<rparr>"

text \<open>
  A syncer on the store in memory, for the cluster \<^verbatim>\<open>c-1\<close>; its node lister selects
  from the given nodes those that the selector matches.
\<close>

definition mem_syncer :: "Node list \<Rightarrow> mem windowsNodeSyner" where
  "mem_syncer nodes =
     \<lparr>clusterName = ''c-1'',
      clusterAlertRules_Create = initClusterAlerts.clusterAlertRules_Create (mem_clients ''c-1''),
      clusterAlertRules_Controller_Lister_Get = clusterAlertRuleLister_Get (mem_clients ''c-1''),
      nodeLister_List = (\<lambda>namespace sel s. (filter (\<lambda>n. matches sel (Labels n)) nodes, None))\<rparr>"

definition nodes0 :: "Node list" where
  "nodes0 = [\<lparr>Name = ''worker-1'', Namespace = '''', Labels = [(''kubernetes.io/os'', ''linux'')]\<rparr>,
             \<lparr>Name = ''worker-2'', Namespace = '''', Labels = [(''kubernetes.io/os'', ''windows'')]\<rparr>]"

text \<open>The store in memory after seeding the cluster \<^verbatim>\<open>c-1\<close> from the empty store.\<close>

definition mem_seeded :: mem where
  "mem_seeded = fst (initClusterPreCanAlerts x0 (mem_clients ''c-1'') ''c-1'' mem_empty)"

section \<open>Properties of the catalog template store\<close>

lemma FormatUint_nonempty: "FormatUint n \<noteq> []"
  by (subst FormatUint.simps) simp

lemma FormatInt_nonempty: "FormatInt v \<noteq> []"
  by (simp add: FormatInt_def FormatUint_nonempty)

lemma assert_map_Inr: "assert_map v = Inr m \<longleftrightarrow> v = VMap m"
  by (cases v) auto

lemma assert_string_Inr: "assert_string v = Inr s \<longleftrightarrow> v = VString s"
  by (cases v) auto

lemma versionLinks_step_Inr:
  "versionLinks_step ext t ctx sch res version r = Inr r' \<longleftrightarrow>
     (\<exists>m k e. version = VMap m \<and> index m ''version'' = VString k \<and>
        index m ''externalId'' = VString e \<and>
        r' = (if templateVersionForRancherVersion ext t e
              then AList.update k (VString (URLBuilder_ResourceLinkByID ctx sch (versionID_of ext res m k))) r
              else r))"
  unfolding versionLinks_step_def versionID_of_def
  by (auto simp: Let_def assert_map_Inr assert_string_Inr FormatInt_nonempty
           split: sum.splits option.splits)

lemma versionLinks_step_wf: "(\<exists>r'. versionLinks_step ext t ctx sch res version r = Inr r') \<longleftrightarrow> wf_version version"
  unfolding versionLinks_step_Inr wf_version_def is_string_def
  by (auto split: val.splits)

lemma versionLinks_loop_wf:
  "(\<exists>r'. versionLinks_loop ext t ctx sch res vs r = Inr r') \<longleftrightarrow> list_all wf_version vs"
proof (induction vs arbitrary: r)
  case Nil
  then show ?case by simp
next
  case (Cons v vs)
  show ?case
  proof (cases "versionLinks_step ext t ctx sch res v r")
    case (Inl p)
    then have "\<not> wf_version v" using versionLinks_step_wf[of ext t ctx sch res v r] by simp
    with Inl show ?thesis by simp
  next
    case (Inr r1)
    then have "wf_version v" using versionLinks_step_wf[of ext t ctx sch res v r] by auto
    with Inr Cons.IH[of r1] show ?thesis by simp
  qed
qed

lemma versionLinks_loop_sound:
  "versionLinks_loop ext t ctx sch res vs r = Inr r' \<Longrightarrow> map_of r' k = Some v \<Longrightarrow>
   map_of r k = Some v \<or>
   (\<exists>m. VMap m \<in> set vs \<and> compatible_entry ext t m k \<and>
        v = VString (URLBuilder_ResourceLinkByID ctx sch (versionID_of ext res m k)))"
proof (induction vs arbitrary: r)
  case Nil
  then show ?case by simp
next
  case (Cons x vs)
  from Cons.prems(1) obtain r1 where
    s: "versionLinks_step ext t ctx sch res x r = Inr r1" and
    l: "versionLinks_loop ext t ctx sch res vs r1 = Inr r'"
    by (auto split: sum.splits)
  from Cons.IH[OF l Cons.prems(2)] show ?case
  proof
    assume a: "map_of r1 k = Some v"
    from s obtain m k' e where x: "x = VMap m" and k': "index m ''version'' = VString k'"
      and e: "index m ''externalId'' = VString e"
      and r1: "r1 = (if templateVersionForRancherVersion ext t e
              then AList.update k' (VString (URLBuilder_ResourceLinkByID ctx sch (versionID_of ext res m k'))) r
              else r)"
      unfolding versionLinks_step_Inr by blast
    show ?thesis
    proof (cases "templateVersionForRancherVersion ext t e \<and> k' = k")
      case True
      with a r1 have "v = VString (URLBuilder_ResourceLinkByID ctx sch (versionID_of ext res m k))"
        by (simp add: update_conv')
      moreover have "compatible_entry ext t m k"
        using True k' e by (auto simp: compatible_entry_def)
      ultimately show ?thesis using x by auto
    next
      case False
      with a r1 have "map_of r k = Some v"
        by (auto simp: update_conv' split: if_splits)
      then show ?thesis by simp
    qed
  next
    assume "\<exists>m. VMap m \<in> set vs \<and> compatible_entry ext t m k \<and>
        v = VString (URLBuilder_ResourceLinkByID ctx sch (versionID_of ext res m k))"
    then show ?thesis by auto
  qed
qed

lemma versionLinks_loop_mono:
  "versionLinks_loop ext t ctx sch res vs r = Inr r' \<Longrightarrow> k \<in> dom (map_of r) \<Longrightarrow>
   k \<in> dom (map_of r')"
proof (induction vs arbitrary: r)
  case Nil
  then show ?case by simp
next
  case (Cons x vs)
  from Cons.prems(1) obtain r1 where
    s: "versionLinks_step ext t ctx sch res x r = Inr r1" and
    l: "versionLinks_loop ext t ctx sch res vs r1 = Inr r'"
    by (auto split: sum.splits)
  from s Cons.prems(2) have "k \<in> dom (map_of r1)"
    unfolding versionLinks_step_Inr by (auto simp: update_conv')
  from Cons.IH[OF l this] show ?case .
qed

lemma versionLinks_loop_complete:
  "versionLinks_loop ext t ctx sch res vs r = Inr r' \<Longrightarrow> VMap m \<in> set vs \<Longrightarrow>
   compatible_entry ext t m k \<Longrightarrow> k \<in> dom (map_of r')"
proof (induction vs arbitrary: r)
  case Nil
  then show ?case by simp
next
  case (Cons x vs)
  from Cons.prems(1) obtain r1 where
    s: "versionLinks_step ext t ctx sch res x r = Inr r1" and
    l: "versionLinks_loop ext t ctx sch res vs r1 = Inr r'"
    by (auto split: sum.splits)
  show ?case
  proof (cases "x = VMap m")
    case True
    with s Cons.prems(3) have "k \<in> dom (map_of r1)"
      unfolding versionLinks_step_Inr compatible_entry_def by (auto simp: update_conv')
    with l show ?thesis by (rule versionLinks_loop_mono)
  next
    case False
    with Cons.prems(2) have "VMap m \<in> set vs" by simp
    from Cons.IH[OF l this Cons.prems(3)] show ?thesis .
  qed
qed

text \<open>
  Claim C2. The compatibility check is fail-open: \<open>templateVersionForRancherVersion\<close>
  returns false exactly when the server version is a release version, the external ID
  parses, the lister returns the template version, and \<open>ValidateRancherVersion\<close> rejects
  it. On every other path it returns true: when the server version is not a release
  version, when \<open>ParseExternalID\<close> returns an error, and when the lister's \<open>Get\<close> returns
  an error.
\<close>

theorem fail_open:
  "(\<not> templateVersionForRancherVersion ext t externalID \<longleftrightarrow>
      catUtil_ReleaseServerVersion ext (settings_ServerVersion_Get ext) \<and>
      (\<exists>templateVersionID namespace template err.
          hcommon_ParseExternalID ext externalID = Inr (templateVersionID, namespace) \<and>
          CatalogTemplateVersionLister_Get t namespace templateVersionID = Inr template \<and>
          catUtil_ValidateRancherVersion ext template = Some err)) \<and>
   (\<not> catUtil_ReleaseServerVersion ext (settings_ServerVersion_Get ext) \<longrightarrow>
      templateVersionForRancherVersion ext t externalID) \<and>
   (\<forall>err. hcommon_ParseExternalID ext externalID = Inl err \<longrightarrow>
      templateVersionForRancherVersion ext t externalID) \<and>
   (\<forall>templateVersionID namespace err.
      hcommon_ParseExternalID ext externalID = Inr (templateVersionID, namespace) \<and>
      CatalogTemplateVersionLister_Get t namespace templateVersionID = Inl err \<longrightarrow>
      templateVersionForRancherVersion ext t externalID)"
  unfolding templateVersionForRancherVersion_def Let_def
  by (auto split: sum.splits option.splits prod.splits)

theorem fail_open_witness:
  "\<not> templateVersionForRancherVersion ext0 ts0 ''needs-v2.4'' \<and>
   templateVersionForRancherVersion ext0 ts0 ''ok'' \<and>
   templateVersionForRancherVersion ext0 ts0 '''' \<and>
   templateVersionForRancherVersion ext0 ts0 ''gone'' \<and>
   templateVersionForRancherVersion (ext0\<lparr>settings_ServerVersion_Get := ''dev''\<rparr>) ts0 ''needs-v2.4''"
  using fail_open [of ext0 ts0 "''needs-v2.4''"] fail_open [of ext0 ts0 "''ok''"]
    fail_open [of ext0 ts0 "''''"] fail_open [of ext0 ts0 "''gone''"]
    fail_open [of "ext0\<lparr>settings_ServerVersion_Get := ''dev''\<rparr>" ts0 "''needs-v2.4''"]
  by (simp add: ext0_def ts0_def)

text \<open>
  Claim C1. For a catalog-template response (its versions, if any, are maps with a version
  string and an external ID), the \<open>Transformer\<close> returns the response with the
  \<^verbatim>\<open>versionLinks\<close> field set to the map computed by \<open>extractVersionLinks\<close>, and a nil
  error. A version string is a key of that map exactly when a version of the response
  carries it and \<open>templateVersionForRancherVersion\<close> accepts that version's external ID:
  the versions it rejects add no key. The value of a key is the resource link, in the
  schema of template versions, of the ID of such a version.
\<close>

theorem Transformer_versionLinks:
  assumes "wf_template data"
  shows "\<exists>links. extractVersionLinks ext ts ctx data = Inr links \<and>
           Transformer ext ts ctx data =
             Inr (AList.update CatalogTemplateFieldVersionLinks (VMap links) data, None) \<and>
           (\<forall>k. k \<in> dom (map_of links) \<longleftrightarrow>
                (\<exists>versionMap m. index data CatalogTemplateFieldVersions = VSlice versionMap \<and>
                    VMap m \<in> set versionMap \<and> compatible_entry ext ts m k)) \<and>
           (\<forall>k v. map_of links k = Some v \<longrightarrow>
                (\<exists>versionMap m. index data CatalogTemplateFieldVersions = VSlice versionMap \<and>
                    VMap m \<in> set versionMap \<and> compatible_entry ext ts m k \<and>
                    v = VString (URLBuilder_ResourceLinkByID ctx
                                   (Schemas_Schema ctx TemplateVersionType)
                                   (versionID_of ext data m k))))"
proof (cases "assert_slice_ok (index data CatalogTemplateFieldVersions)")
  case None
  then have "\<And>versionMap. index data CatalogTemplateFieldVersions \<noteq> VSlice versionMap"
    by auto
  with None show ?thesis
    by (simp add: extractVersionLinks_def Transformer_def)
next
  case (Some versionMap)
  then have vm: "index data CatalogTemplateFieldVersions = VSlice versionMap"
    by (cases "index data CatalogTemplateFieldVersions") auto
  let ?sch = "Schemas_Schema ctx TemplateVersionType"
  from assms Some have "list_all wf_version versionMap"
    by (simp add: wf_template_def)
  then obtain links where l: "versionLinks_loop ext ts ctx ?sch data versionMap [] = Inr links"
    using versionLinks_loop_wf[of ext ts ctx ?sch data versionMap "[]"] by blast
  have e: "extractVersionLinks ext ts ctx data = Inr links"
    using Some l by (simp add: extractVersionLinks_def)
  have t: "Transformer ext ts ctx data =
             Inr (AList.update CatalogTemplateFieldVersionLinks (VMap links) data, None)"
    using e by (simp add: Transformer_def)
  have s: "\<exists>m. VMap m \<in> set versionMap \<and> compatible_entry ext ts m k \<and>
                v = VString (URLBuilder_ResourceLinkByID ctx ?sch (versionID_of ext data m k))"
    if "map_of links k = Some v" for k v
    using versionLinks_loop_sound[OF l that] by simp
  have c: "k \<in> dom (map_of links)"
    if "VMap m \<in> set versionMap" "compatible_entry ext ts m k" for m k
    using versionLinks_loop_complete[OF l that] .
  have k: "k \<in> dom (map_of links) \<longleftrightarrow>
             (\<exists>m. VMap m \<in> set versionMap \<and> compatible_entry ext ts m k)" for k
    using s[of k] c[of _ k] by blast
  show ?thesis
    using e t k s by (simp add: vm)
qed

theorem Transformer_versionLinks_witness:
  "wf_template data0 \<and>
   (\<exists>links. extractVersionLinks ext0 ts0 ctx0 data0 = Inr links \<and>
      Transformer ext0 ts0 ctx0 data0 =
        Inr (AList.update CatalogTemplateFieldVersionLinks (VMap links) data0, None) \<and>
      (\<forall>k. k \<in> dom (map_of links) \<longleftrightarrow>
           (\<exists>versionMap m. index data0 CatalogTemplateFieldVersions = VSlice versionMap \<and>
               VMap m \<in> set versionMap \<and> compatible_entry ext0 ts0 m k)) \<and>
      (\<forall>k v. map_of links k = Some v \<longrightarrow>
           (\<exists>versionMap m. index data0 CatalogTemplateFieldVersions = VSlice versionMap \<and>
               VMap m \<in> set versionMap \<and> compatible_entry ext0 ts0 m k \<and>
               v = VString (URLBuilder_ResourceLinkByID ctx0
                              (Schemas_Schema ctx0 TemplateVersionType)
                              (versionID_of ext0 data0 m k)))))"
proof -
  have w: "wf_template data0"
    by (simp add: wf_template_def data0_def index_def CatalogTemplateFieldVersions_def
          wf_version_def is_string_def)
  from w Transformer_versionLinks [OF w, of ext0 ts0 ctx0] show ?thesis
    by (rule conjI)
qed
text \<open>
  On any other response an unchecked type assertion of the loop fails, and the
  \<open>Transformer\<close> panics.
\<close>

lemma Transformer_panics:
  "\<not> wf_template data \<Longrightarrow> Transformer ext ts ctx data = Inl InterfaceConversion"
proof -
  assume n: "\<not> wf_template data"
  then obtain versionMap where
    a: "assert_slice_ok (index data CatalogTemplateFieldVersions) = Some versionMap" and
    b: "\<not> list_all wf_version versionMap"
    by (auto simp: wf_template_def split: option.splits)
  let ?sch = "Schemas_Schema ctx TemplateVersionType"
  from b have "\<not> (\<exists>r'. versionLinks_loop ext ts ctx ?sch data versionMap [] = Inr r')"
    using versionLinks_loop_wf [of ext ts ctx ?sch data versionMap "[]"] by simp
  then obtain p where "versionLinks_loop ext ts ctx ?sch data versionMap [] = Inl p"
    by (cases "versionLinks_loop ext ts ctx ?sch data versionMap []") auto
  moreover have "p = InterfaceConversion" by (cases p) simp
  ultimately show ?thesis
    using a by (simp add: Transformer_def extractVersionLinks_def)
qed

section \<open>Properties of the cluster alert seeding\<close>

subsection \<open>One group, one rule\<close>

lemma Name_seeded_group [simp]: "Name (seeded_group cn g) = Name g"
  by (simp add: seeded_group_def)

lemma Name_seeded_rule [simp]: "Name (seeded_rule x cn g r) = Name r"
  by (simp add: seeded_rule_def)

lemma seeded_rule_group_name:
  "Name g = Name g' \<Longrightarrow> seeded_rule x cn g r = seeded_rule x cn g' r"
  by (simp add: seeded_rule_def)

lemma reports_not_found_Some: "reports_not_found err \<longleftrightarrow> (\<exists>e. err = Some e \<and> IsNotFound e)"
  by (cases err) (auto simp: reports_not_found_def)

lemma group_step_name:
  "Name (fst (initClusterPreCanAlerts_group initAlerts cn grp s)) = Name grp"
  unfolding initClusterPreCanAlerts_group_def
  by (simp add: Let_def split: option.splits prod.splits)

lemma group_step_state:
  "fst (snd (initClusterPreCanAlerts_group initAlerts cn grp s)) =
     (if reports_not_found (snd (clusterAlertGroupLister_Get initAlerts cn (Name grp) s))
      then snd (clusterAlertGroups_Create initAlerts (seeded_group cn grp) s)
      else s)"
  unfolding initClusterPreCanAlerts_group_def
  by (simp add: Let_def reports_not_found_def seeded_group_def split: option.splits prod.splits)

lemma group_step_gets:
  "group_gets (snd (snd (initClusterPreCanAlerts_group initAlerts cn grp s))) = [(cn, Name grp)]"
  "rule_gets (snd (snd (initClusterPreCanAlerts_group initAlerts cn grp s))) = []"
  unfolding initClusterPreCanAlerts_group_def
  by (simp_all add: Let_def group_gets_def rule_gets_def split: option.splits prod.splits)

lemma group_step_get_event:
  "GetClusterAlertGroup ns n err \<in> set (snd (snd (initClusterPreCanAlerts_group initAlerts cn grp s)))
     \<longleftrightarrow> ns = cn \<and> n = Name grp \<and> err = snd (clusterAlertGroupLister_Get initAlerts cn (Name grp) s)"
  unfolding initClusterPreCanAlerts_group_def
  by (auto simp: Let_def split: option.splits prod.splits)

lemma group_step_create_group:
  "CreateClusterAlertGroup g cerr \<in> set (snd (snd (initClusterPreCanAlerts_group initAlerts cn grp s)))
     \<longleftrightarrow> reports_not_found (snd (clusterAlertGroupLister_Get initAlerts cn (Name grp) s)) \<and>
          g = seeded_group cn grp \<and> cerr = fst (clusterAlertGroups_Create initAlerts g s)"
  unfolding initClusterPreCanAlerts_group_def
  by (auto simp: Let_def reports_not_found_def seeded_group_def split: option.splits prod.splits)

lemma group_step_no_rule_event:
  "CreateClusterAlertRule r cerr \<notin> set (snd (snd (initClusterPreCanAlerts_group initAlerts cn grp s)))"
  "GetClusterAlertRule ns n err \<notin> set (snd (snd (initClusterPreCanAlerts_group initAlerts cn grp s)))"
  unfolding initClusterPreCanAlerts_group_def
  by (auto simp: Let_def split: option.splits prod.splits)

lemma group_step_found:
  "snd (clusterAlertGroupLister_Get initAlerts cn (Name grp) s) = None \<Longrightarrow>
   initClusterPreCanAlerts_group initAlerts cn grp s = (grp, s, [GetClusterAlertGroup cn (Name grp) None])"
  unfolding initClusterPreCanAlerts_group_def by (simp add: Let_def)

lemma rule_step_state:
  "fst (initClusterPreCanAlerts_rule x initAlerts cn grp rule s) =
     (if reports_not_found (snd (clusterAlertRuleLister_Get initAlerts cn (Name rule) s))
      then snd (initClusterAlerts.clusterAlertRules_Create initAlerts (seeded_rule x cn grp rule) s)
      else s)"
  unfolding initClusterPreCanAlerts_rule_def
  by (simp add: Let_def reports_not_found_def seeded_rule_def split: option.splits prod.splits)

lemma rule_step_gets:
  "group_gets (snd (initClusterPreCanAlerts_rule x initAlerts cn grp rule s)) = []"
  "rule_gets (snd (initClusterPreCanAlerts_rule x initAlerts cn grp rule s)) = [(cn, Name rule)]"
  unfolding initClusterPreCanAlerts_rule_def
  by (simp_all add: Let_def group_gets_def rule_gets_def split: option.splits prod.splits)

lemma rule_step_get_event:
  "GetClusterAlertRule ns n err \<in> set (snd (initClusterPreCanAlerts_rule x initAlerts cn grp rule s))
     \<longleftrightarrow> ns = cn \<and> n = Name rule \<and> err = snd (clusterAlertRuleLister_Get initAlerts cn (Name rule) s)"
  unfolding initClusterPreCanAlerts_rule_def
  by (auto simp: Let_def split: option.splits prod.splits)

lemma rule_step_create_rule:
  "CreateClusterAlertRule r cerr \<in> set (snd (initClusterPreCanAlerts_rule x initAlerts cn grp rule s))
     \<longleftrightarrow> reports_not_found (snd (clusterAlertRuleLister_Get initAlerts cn (Name rule) s)) \<and>
          r = seeded_rule x cn grp rule \<and>
          cerr = fst (initClusterAlerts.clusterAlertRules_Create initAlerts r s)"
  unfolding initClusterPreCanAlerts_rule_def
  by (auto simp: Let_def reports_not_found_def seeded_rule_def split: option.splits prod.splits)

lemma rule_step_no_group_event:
  "CreateClusterAlertGroup g cerr \<notin> set (snd (initClusterPreCanAlerts_rule x initAlerts cn grp rule s))"
  "GetClusterAlertGroup ns n err \<notin> set (snd (initClusterPreCanAlerts_rule x initAlerts cn grp rule s))"
  unfolding initClusterPreCanAlerts_rule_def
  by (auto simp: Let_def split: option.splits prod.splits)

lemma rule_step_found:
  "snd (clusterAlertRuleLister_Get initAlerts cn (Name rule) s) = None \<Longrightarrow>
   initClusterPreCanAlerts_rule x initAlerts cn grp rule s = (s, [GetClusterAlertRule cn (Name rule) None])"
  unfolding initClusterPreCanAlerts_rule_def by (simp add: Let_def)

subsection \<open>The loops\<close>

lemma gets_append [simp]:
  "group_gets (evs @ evs') = group_gets evs @ group_gets evs'"
  "rule_gets (evs @ evs') = rule_gets evs @ rule_gets evs'"
  by (simp_all add: group_gets_def rule_gets_def)

lemma gets_Nil [simp]: "group_gets [] = []" "rule_gets [] = []"
  by (simp_all add: group_gets_def rule_gets_def)

lemma rule_step_group_name:
  assumes "Name g = Name g'"
  shows "initClusterPreCanAlerts_rule x initAlerts cn g rule s =
         initClusterPreCanAlerts_rule x initAlerts cn g' rule s"
  unfolding initClusterPreCanAlerts_rule_def assms by (rule refl)

lemma rules_loop_Cons:
  "fst (initClusterPreCanAlerts_rules x initAlerts cn grp (rule # rest) s) =
     fst (initClusterPreCanAlerts_rules x initAlerts cn grp rest
            (fst (initClusterPreCanAlerts_rule x initAlerts cn grp rule s)))"
  "snd (initClusterPreCanAlerts_rules x initAlerts cn grp (rule # rest) s) =
     snd (initClusterPreCanAlerts_rule x initAlerts cn grp rule s) @
     snd (initClusterPreCanAlerts_rules x initAlerts cn grp rest
            (fst (initClusterPreCanAlerts_rule x initAlerts cn grp rule s)))"
  by (simp_all add: case_prod_beta Let_def)

lemma rules_loop_group_name:
  "Name g = Name g' \<Longrightarrow>
   initClusterPreCanAlerts_rules x initAlerts cn g rs s =
   initClusterPreCanAlerts_rules x initAlerts cn g' rs s"
  by (induction rs arbitrary: s) (simp_all add: rule_step_group_name [of g g'])

lemma rules_loop_gets:
  "group_gets (snd (initClusterPreCanAlerts_rules x initAlerts cn grp rs s)) = []"
  "rule_gets (snd (initClusterPreCanAlerts_rules x initAlerts cn grp rs s)) =
     map (\<lambda>r. (cn, Name r)) rs"
  by (induction rs arbitrary: s) (simp_all add: rules_loop_Cons rule_step_gets del: initClusterPreCanAlerts_rules.simps(2))

lemma rules_loop_no_group_event:
  "CreateClusterAlertGroup g cerr \<notin> set (snd (initClusterPreCanAlerts_rules x initAlerts cn grp rs s))"
  "GetClusterAlertGroup ns n err \<notin> set (snd (initClusterPreCanAlerts_rules x initAlerts cn grp rs s))"
  by (induction rs arbitrary: s)
     (simp_all add: rules_loop_Cons rule_step_no_group_event del: initClusterPreCanAlerts_rules.simps(2))

lemma rules_loop_create_rule:
  "CreateClusterAlertRule r cerr \<in> set (snd (initClusterPreCanAlerts_rules x initAlerts cn grp rs s)) \<Longrightarrow>
   (\<exists>r0 \<in> set rs. r = seeded_rule x cn grp r0) \<and>
   (\<exists>err. IsNotFound err \<and>
      GetClusterAlertRule cn (Name r) (Some err) \<in>
        set (snd (initClusterPreCanAlerts_rules x initAlerts cn grp rs s)))"
proof (induction rs arbitrary: s)
  case Nil
  then show ?case by simp
next
  case (Cons rule rest)
  let ?s1 = "fst (initClusterPreCanAlerts_rule x initAlerts cn grp rule s)"
  from Cons.prems consider
    (head) "CreateClusterAlertRule r cerr \<in> set (snd (initClusterPreCanAlerts_rule x initAlerts cn grp rule s))"
  | (tail) "CreateClusterAlertRule r cerr \<in> set (snd (initClusterPreCanAlerts_rules x initAlerts cn grp rest ?s1))"
    by (auto simp: rules_loop_Cons simp del: initClusterPreCanAlerts_rules.simps(2))
  then show ?case
  proof cases
    case head
    then obtain err where r: "r = seeded_rule x cn grp rule" and
      e: "IsNotFound err" "snd (clusterAlertRuleLister_Get initAlerts cn (Name rule) s) = Some err"
      unfolding rule_step_create_rule reports_not_found_Some by blast
    have "GetClusterAlertRule cn (Name r) (Some err) \<in>
            set (snd (initClusterPreCanAlerts_rule x initAlerts cn grp rule s))"
      unfolding rule_step_get_event using r e by simp
    with r e show ?thesis
      by (auto simp: rules_loop_Cons simp del: initClusterPreCanAlerts_rules.simps(2))
  next
    case tail
    from Cons.IH [OF tail] show ?thesis
      by (auto simp: rules_loop_Cons simp del: initClusterPreCanAlerts_rules.simps(2))
  qed
qed

lemma rules_loop_not_found_creates:
  "GetClusterAlertRule ns n (Some err) \<in> set (snd (initClusterPreCanAlerts_rules x initAlerts cn grp rs s)) \<Longrightarrow>
   IsNotFound err \<Longrightarrow>
   \<exists>r cerr. Name r = n \<and>
      CreateClusterAlertRule r cerr \<in> set (snd (initClusterPreCanAlerts_rules x initAlerts cn grp rs s))"
proof (induction rs arbitrary: s)
  case Nil
  then show ?case by simp
next
  case (Cons rule rest)
  let ?s1 = "fst (initClusterPreCanAlerts_rule x initAlerts cn grp rule s)"
  from Cons.prems(1) consider
    (head) "GetClusterAlertRule ns n (Some err) \<in> set (snd (initClusterPreCanAlerts_rule x initAlerts cn grp rule s))"
  | (tail) "GetClusterAlertRule ns n (Some err) \<in> set (snd (initClusterPreCanAlerts_rules x initAlerts cn grp rest ?s1))"
    by (auto simp: rules_loop_Cons simp del: initClusterPreCanAlerts_rules.simps(2))
  then show ?case
  proof cases
    case head
    then have n: "n = Name rule" and
      e: "snd (clusterAlertRuleLister_Get initAlerts cn (Name rule) s) = Some err"
      unfolding rule_step_get_event by simp_all
    let ?r = "seeded_rule x cn grp rule"
    have "CreateClusterAlertRule ?r (fst (initClusterAlerts.clusterAlertRules_Create initAlerts ?r s))
            \<in> set (snd (initClusterPreCanAlerts_rule x initAlerts cn grp rule s))"
      unfolding rule_step_create_rule reports_not_found_Some using e Cons.prems(2) by simp
    then have "CreateClusterAlertRule ?r (fst (initClusterAlerts.clusterAlertRules_Create initAlerts ?r s))
            \<in> set (snd (initClusterPreCanAlerts_rules x initAlerts cn grp (rule # rest) s))"
      by (simp add: rules_loop_Cons del: initClusterPreCanAlerts_rules.simps(2))
    moreover have "Name ?r = n" using n by simp
    ultimately show ?thesis by blast
  next
    case tail
    from Cons.IH [OF tail Cons.prems(2)] show ?thesis
      by (auto simp: rules_loop_Cons simp del: initClusterPreCanAlerts_rules.simps(2))
  qed
qed

lemma rules_loop_found:
  "\<forall>r \<in> set rs. snd (clusterAlertRuleLister_Get initAlerts cn (Name r) s) = None \<Longrightarrow>
   initClusterPreCanAlerts_rules x initAlerts cn grp rs s =
     (s, map (\<lambda>r. GetClusterAlertRule cn (Name r) None) rs)"
  by (induction rs) (simp_all add: rule_step_found)

lemma reconcile_reference_append:
  "reconcile_reference c (t1 @ t2) s = reconcile_reference c t2 (reconcile_reference c t1 s)"
  by (induction t1 arbitrary: s) auto

lemma rules_loop_state:
  "fst (initClusterPreCanAlerts_rules x initAlerts cn grp rs s) =
     reconcile_reference (store_client_of initAlerts)
       (map (\<lambda>r. (RuleKey cn (Name r), RuleValue (seeded_rule x cn grp r))) rs) s"
proof (induction rs arbitrary: s)
  case Nil
  then show ?case by simp
next
  case (Cons rule rest)
  have "fst (initClusterPreCanAlerts_rule x initAlerts cn grp rule s) =
          (if \<not> client_exists (store_client_of initAlerts) (RuleKey cn (Name rule)) s
           then client_create (store_client_of initAlerts) (RuleKey cn (Name rule))
                  (RuleValue (seeded_rule x cn grp rule)) s
           else s)"
    by (simp add: rule_step_state store_client_of_def)
  with Cons.IH show ?case
    by (simp add: rules_loop_Cons del: initClusterPreCanAlerts_rules.simps(2))
qed

lemma entries_loop_Cons:
  "fst (initClusterPreCanAlerts_entries x initAlerts cn (e # es) s) =
     fst (initClusterPreCanAlerts_entries x initAlerts cn es
            (fst (initClusterPreCanAlerts_rules x initAlerts cn (group e) (rules e)
                    (fst (snd (initClusterPreCanAlerts_group initAlerts cn (group e) s))))))"
  "snd (initClusterPreCanAlerts_entries x initAlerts cn (e # es) s) =
     snd (snd (initClusterPreCanAlerts_group initAlerts cn (group e) s)) @
     snd (initClusterPreCanAlerts_rules x initAlerts cn (group e) (rules e)
            (fst (snd (initClusterPreCanAlerts_group initAlerts cn (group e) s)))) @
     snd (initClusterPreCanAlerts_entries x initAlerts cn es
            (fst (initClusterPreCanAlerts_rules x initAlerts cn (group e) (rules e)
                    (fst (snd (initClusterPreCanAlerts_group initAlerts cn (group e) s))))))"
  using rules_loop_group_name [OF group_step_name [of initAlerts cn "group e" s], of x initAlerts cn "rules e"]
  by (simp_all add: case_prod_beta Let_def)


lemma entries_loop_gets:
  "group_gets (snd (initClusterPreCanAlerts_entries x initAlerts cn es s)) =
     map (\<lambda>e. (cn, Name (group e))) es"
  "rule_gets (snd (initClusterPreCanAlerts_entries x initAlerts cn es s)) =
     concat (map (\<lambda>e. map (\<lambda>r. (cn, Name r)) (rules e)) es)"
  by (induction es arbitrary: s)
     (simp_all add: entries_loop_Cons group_step_gets rules_loop_gets
        del: initClusterPreCanAlerts_entries.simps(2))

lemma entries_loop_create_group:
  "CreateClusterAlertGroup g cerr \<in> set (snd (initClusterPreCanAlerts_entries x initAlerts cn es s)) \<Longrightarrow>
   (\<exists>e \<in> set es. g = seeded_group cn (group e)) \<and>
   (\<exists>err. IsNotFound err \<and>
      GetClusterAlertGroup cn (Name g) (Some err) \<in>
        set (snd (initClusterPreCanAlerts_entries x initAlerts cn es s)))"
proof (induction es arbitrary: s)
  case Nil
  then show ?case by simp
next
  case (Cons e es)
  let ?s1 = "fst (snd (initClusterPreCanAlerts_group initAlerts cn (group e) s))"
  let ?s2 = "fst (initClusterPreCanAlerts_rules x initAlerts cn (group e) (rules e) ?s1)"
  from Cons.prems consider
    (head) "CreateClusterAlertGroup g cerr \<in> set (snd (snd (initClusterPreCanAlerts_group initAlerts cn (group e) s)))"
  | (tail) "CreateClusterAlertGroup g cerr \<in> set (snd (initClusterPreCanAlerts_entries x initAlerts cn es ?s2))"
    by (auto simp: entries_loop_Cons rules_loop_no_group_event
             simp del: initClusterPreCanAlerts_entries.simps(2))
  then show ?case
  proof cases
    case head
    then obtain err where g: "g = seeded_group cn (group e)" and
      e: "IsNotFound err" "snd (clusterAlertGroupLister_Get initAlerts cn (Name (group e)) s) = Some err"
      unfolding group_step_create_group reports_not_found_Some by blast
    have "GetClusterAlertGroup cn (Name g) (Some err) \<in>
            set (snd (snd (initClusterPreCanAlerts_group initAlerts cn (group e) s)))"
      unfolding group_step_get_event using g e by simp
    with g e show ?thesis
      by (auto simp: entries_loop_Cons simp del: initClusterPreCanAlerts_entries.simps(2))
  next
    case tail
    from Cons.IH [OF tail] show ?thesis
      by (auto simp: entries_loop_Cons simp del: initClusterPreCanAlerts_entries.simps(2))
  qed
qed

lemma entries_loop_create_rule:
  "CreateClusterAlertRule r cerr \<in> set (snd (initClusterPreCanAlerts_entries x initAlerts cn es s)) \<Longrightarrow>
   (\<exists>e \<in> set es. \<exists>r0 \<in> set (rules e). r = seeded_rule x cn (group e) r0) \<and>
   (\<exists>err. IsNotFound err \<and>
      GetClusterAlertRule cn (Name r) (Some err) \<in>
        set (snd (initClusterPreCanAlerts_entries x initAlerts cn es s)))"
proof (induction es arbitrary: s)
  case Nil
  then show ?case by simp
next
  case (Cons e es)
  let ?s1 = "fst (snd (initClusterPreCanAlerts_group initAlerts cn (group e) s))"
  let ?s2 = "fst (initClusterPreCanAlerts_rules x initAlerts cn (group e) (rules e) ?s1)"
  from Cons.prems consider
    (head) "CreateClusterAlertRule r cerr \<in> set (snd (initClusterPreCanAlerts_rules x initAlerts cn (group e) (rules e) ?s1))"
  | (tail) "CreateClusterAlertRule r cerr \<in> set (snd (initClusterPreCanAlerts_entries x initAlerts cn es ?s2))"
    by (auto simp: entries_loop_Cons group_step_no_rule_event
             simp del: initClusterPreCanAlerts_entries.simps(2))
  then show ?case
  proof cases
    case head
    from rules_loop_create_rule [OF head] show ?thesis
      by (auto simp: entries_loop_Cons simp del: initClusterPreCanAlerts_entries.simps(2))
  next
    case tail
    from Cons.IH [OF tail] show ?thesis
      by (auto simp: entries_loop_Cons simp del: initClusterPreCanAlerts_entries.simps(2))
  qed
qed

lemma entries_loop_not_found_creates_group:
  "GetClusterAlertGroup ns n (Some err) \<in> set (snd (initClusterPreCanAlerts_entries x initAlerts cn es s)) \<Longrightarrow>
   IsNotFound err \<Longrightarrow>
   \<exists>g cerr. Name g = n \<and>
      CreateClusterAlertGroup g cerr \<in> set (snd (initClusterPreCanAlerts_entries x initAlerts cn es s))"
proof (induction es arbitrary: s)
  case Nil
  then show ?case by simp
next
  case (Cons e es)
  let ?s1 = "fst (snd (initClusterPreCanAlerts_group initAlerts cn (group e) s))"
  let ?s2 = "fst (initClusterPreCanAlerts_rules x initAlerts cn (group e) (rules e) ?s1)"
  from Cons.prems(1) consider
    (head) "GetClusterAlertGroup ns n (Some err) \<in> set (snd (snd (initClusterPreCanAlerts_group initAlerts cn (group e) s)))"
  | (tail) "GetClusterAlertGroup ns n (Some err) \<in> set (snd (initClusterPreCanAlerts_entries x initAlerts cn es ?s2))"
    by (auto simp: entries_loop_Cons rules_loop_no_group_event
             simp del: initClusterPreCanAlerts_entries.simps(2))
  then show ?case
  proof cases
    case head
    then have n: "n = Name (group e)" and
      e: "snd (clusterAlertGroupLister_Get initAlerts cn (Name (group e)) s) = Some err"
      unfolding group_step_get_event by simp_all
    let ?g = "seeded_group cn (group e)"
    have "CreateClusterAlertGroup ?g (fst (clusterAlertGroups_Create initAlerts ?g s))
            \<in> set (snd (snd (initClusterPreCanAlerts_group initAlerts cn (group e) s)))"
      unfolding group_step_create_group reports_not_found_Some using e Cons.prems(2) by simp
    then have "CreateClusterAlertGroup ?g (fst (clusterAlertGroups_Create initAlerts ?g s))
            \<in> set (snd (initClusterPreCanAlerts_entries x initAlerts cn (e # es) s))"
      by (simp add: entries_loop_Cons del: initClusterPreCanAlerts_entries.simps(2))
    moreover have "Name ?g = n" using n by simp
    ultimately show ?thesis by blast
  next
    case tail
    from Cons.IH [OF tail Cons.prems(2)] show ?thesis
      by (auto simp: entries_loop_Cons simp del: initClusterPreCanAlerts_entries.simps(2))
  qed
qed

lemma entries_loop_not_found_creates_rule:
  "GetClusterAlertRule ns n (Some err) \<in> set (snd (initClusterPreCanAlerts_entries x initAlerts cn es s)) \<Longrightarrow>
   IsNotFound err \<Longrightarrow>
   \<exists>r cerr. Name r = n \<and>
      CreateClusterAlertRule r cerr \<in> set (snd (initClusterPreCanAlerts_entries x initAlerts cn es s))"
proof (induction es arbitrary: s)
  case Nil
  then show ?case by simp
next
  case (Cons e es)
  let ?s1 = "fst (snd (initClusterPreCanAlerts_group initAlerts cn (group e) s))"
  let ?s2 = "fst (initClusterPreCanAlerts_rules x initAlerts cn (group e) (rules e) ?s1)"
  from Cons.prems(1) consider
    (head) "GetClusterAlertRule ns n (Some err) \<in> set (snd (initClusterPreCanAlerts_rules x initAlerts cn (group e) (rules e) ?s1))"
  | (tail) "GetClusterAlertRule ns n (Some err) \<in> set (snd (initClusterPreCanAlerts_entries x initAlerts cn es ?s2))"
    by (auto simp: entries_loop_Cons group_step_no_rule_event
             simp del: initClusterPreCanAlerts_entries.simps(2))
  then show ?case
  proof cases
    case head
    from rules_loop_not_found_creates [OF head Cons.prems(2)] show ?thesis
      by (auto simp: entries_loop_Cons simp del: initClusterPreCanAlerts_entries.simps(2))
  next
    case tail
    from Cons.IH [OF tail Cons.prems(2)] show ?thesis
      by (auto simp: entries_loop_Cons simp del: initClusterPreCanAlerts_entries.simps(2))
  qed
qed

lemma entries_loop_found:
  "\<forall>e \<in> set es.
      snd (clusterAlertGroupLister_Get initAlerts cn (Name (group e)) s) = None \<and>
      (\<forall>r \<in> set (rules e). snd (clusterAlertRuleLister_Get initAlerts cn (Name r) s) = None) \<Longrightarrow>
   initClusterPreCanAlerts_entries x initAlerts cn es s = (s, lookups cn es)"
proof (induction es)
  case Nil
  then show ?case by (simp add: lookups_def)
next
  case (Cons e es)
  from Cons.prems have
    g: "initClusterPreCanAlerts_group initAlerts cn (group e) s =
          (group e, s, [GetClusterAlertGroup cn (Name (group e)) None])" and
    r: "initClusterPreCanAlerts_rules x initAlerts cn (group e) (rules e) s =
          (s, map (\<lambda>r. GetClusterAlertRule cn (Name r) None) (rules e))"
    by (simp_all add: group_step_found rules_loop_found)
  from Cons.prems have "initClusterPreCanAlerts_entries x initAlerts cn es s = (s, lookups cn es)"
    by (intro Cons.IH) simp
  with g r show ?case
    by (simp add: lookups_def)
qed

lemma entries_loop_state:
  "fst (initClusterPreCanAlerts_entries x initAlerts cn es s) =
     reconcile_reference (store_client_of initAlerts)
       (concat (map (\<lambda>e. (GroupKey cn (Name (group e)), GroupValue (seeded_group cn (group e))) #
                         map (\<lambda>r. (RuleKey cn (Name r), RuleValue (seeded_rule x cn (group e) r)))
                             (rules e)) es)) s"
proof (induction es arbitrary: s)
  case Nil
  then show ?case by simp
next
  case (Cons e es)
  have "fst (snd (initClusterPreCanAlerts_group initAlerts cn (group e) s)) =
          (if \<not> client_exists (store_client_of initAlerts) (GroupKey cn (Name (group e))) s
           then client_create (store_client_of initAlerts) (GroupKey cn (Name (group e)))
                  (GroupValue (seeded_group cn (group e))) s
           else s)"
    by (simp add: group_step_state store_client_of_def)
  with Cons.IH show ?case
    by (simp add: entries_loop_Cons rules_loop_state reconcile_reference_append
          del: initClusterPreCanAlerts_entries.simps(2))
qed

subsection \<open>The calls of the loops\<close>

lemma seeding_calls_append:
  "seeding_calls initAlerts (t1 @ t2) s =
     seeding_calls initAlerts t1 s @
     seeding_calls initAlerts t2 (reconcile_reference (store_client_of initAlerts) t1 s)"
proof (induction t1 arbitrary: s)
  case Nil
  then show ?case by simp
next
  case (Cons kv t1)
  obtain k v where kv: "kv = (k, v)" by (cases kv)
  have e: "client_exists (store_client_of initAlerts) k s \<longleftrightarrow>
             \<not> reports_not_found (lister_answer initAlerts k s)"
    by (cases k) (simp_all add: store_client_of_def lister_answer_def)
  have c: "client_create (store_client_of initAlerts) k v s = snd (client_answer initAlerts v s)"
    by (cases v) (simp_all add: store_client_of_def client_answer_def)
  show ?case
    unfolding kv using Cons.IH by (simp add: e c)
qed

lemma group_step_calls:
  "filter (\<lambda>ev. \<not> is_warning ev) (snd (snd (initClusterPreCanAlerts_group initAlerts cn grp s))) =
     seeding_calls initAlerts [(GroupKey cn (Name grp), GroupValue (seeded_group cn grp))] s"
  unfolding initClusterPreCanAlerts_group_def
  by (simp add: Let_def reports_not_found_def seeded_group_def lister_answer_def get_event_def
        client_answer_def create_event_def case_prod_beta split: option.splits)

lemma rule_step_calls:
  "filter (\<lambda>ev. \<not> is_warning ev) (snd (initClusterPreCanAlerts_rule x initAlerts cn grp rule s)) =
     seeding_calls initAlerts [(RuleKey cn (Name rule), RuleValue (seeded_rule x cn grp rule))] s"
  unfolding initClusterPreCanAlerts_rule_def
  by (simp add: Let_def reports_not_found_def seeded_rule_def lister_answer_def get_event_def
        client_answer_def create_event_def case_prod_beta split: option.splits)

lemma rule_step_state_reference:
  "fst (initClusterPreCanAlerts_rule x initAlerts cn grp rule s) =
     reconcile_reference (store_client_of initAlerts)
       [(RuleKey cn (Name rule), RuleValue (seeded_rule x cn grp rule))] s"
  by (simp add: rule_step_state store_client_of_def)

lemma group_step_state_reference:
  "fst (snd (initClusterPreCanAlerts_group initAlerts cn grp s)) =
     reconcile_reference (store_client_of initAlerts)
       [(GroupKey cn (Name grp), GroupValue (seeded_group cn grp))] s"
  by (simp add: group_step_state store_client_of_def)

lemma rules_loop_calls:
  "filter (\<lambda>ev. \<not> is_warning ev) (snd (initClusterPreCanAlerts_rules x initAlerts cn grp rs s)) =
     seeding_calls initAlerts
       (map (\<lambda>r. (RuleKey cn (Name r), RuleValue (seeded_rule x cn grp r))) rs) s"
proof (induction rs arbitrary: s)
  case Nil
  then show ?case by simp
next
  case (Cons rule rest)
  let ?item = "(RuleKey cn (Name rule), RuleValue (seeded_rule x cn grp rule))"
  let ?tail = "map (\<lambda>r. (RuleKey cn (Name r), RuleValue (seeded_rule x cn grp r))) rest"
  have "seeding_calls initAlerts (?item # ?tail) s =
          seeding_calls initAlerts [?item] s @
          seeding_calls initAlerts ?tail
            (reconcile_reference (store_client_of initAlerts) [?item] s)"
    using seeding_calls_append [of initAlerts "[?item]" ?tail s] by simp
  then show ?case
    using Cons.IH
    by (simp add: rules_loop_Cons rule_step_calls rule_step_state_reference
          del: initClusterPreCanAlerts_rules.simps(2) seeding_calls.simps(2)
               reconcile_reference.simps(2))
qed

lemma entries_loop_calls:
  "filter (\<lambda>ev. \<not> is_warning ev) (snd (initClusterPreCanAlerts_entries x initAlerts cn es s)) =
     seeding_calls initAlerts
       (concat (map (\<lambda>e. (GroupKey cn (Name (group e)), GroupValue (seeded_group cn (group e))) #
                         map (\<lambda>r. (RuleKey cn (Name r), RuleValue (seeded_rule x cn (group e) r)))
                             (rules e)) es)) s"
proof (induction es arbitrary: s)
  case Nil
  then show ?case by simp
next
  case (Cons e es)
  let ?g = "(GroupKey cn (Name (group e)), GroupValue (seeded_group cn (group e)))"
  let ?rs = "map (\<lambda>r. (RuleKey cn (Name r), RuleValue (seeded_rule x cn (group e) r))) (rules e)"
  let ?rest = "concat (map (\<lambda>e. (GroupKey cn (Name (group e)), GroupValue (seeded_group cn (group e))) #
                         map (\<lambda>r. (RuleKey cn (Name r), RuleValue (seeded_rule x cn (group e) r)))
                             (rules e)) es)"
  let ?s1 = "reconcile_reference (store_client_of initAlerts) [?g] s"
  let ?s2 = "reconcile_reference (store_client_of initAlerts) ?rs ?s1"
  have 1: "seeding_calls initAlerts (?g # ?rs @ ?rest) s =
          seeding_calls initAlerts [?g] s @ seeding_calls initAlerts (?rs @ ?rest) ?s1"
    using seeding_calls_append [of initAlerts "[?g]" "?rs @ ?rest" s] by simp
  have 2: "seeding_calls initAlerts (?rs @ ?rest) ?s1 =
          seeding_calls initAlerts ?rs ?s1 @ seeding_calls initAlerts ?rest ?s2"
    by (rule seeding_calls_append)
  show ?case
    using Cons.IH 1 2
    by (simp add: entries_loop_Cons group_step_calls group_step_state_reference
          rules_loop_calls rules_loop_state
          del: initClusterPreCanAlerts_entries.simps(2) seeding_calls.simps(2)
               reconcile_reference.simps(2))
qed

subsection \<open>Runs on the store in memory\<close>

lemmas run_defs =
  initClusterPreCanAlerts_def entries_def initClusterPreCanAlerts_group_def
  initClusterPreCanAlerts_rule_def mem_clients_def mem_empty_def not_found_def
  already_exists_def x0_def Let_def

lemmas call_defs =
  precan_table_def store_client_of_def lister_answer_def get_event_def client_answer_def
  create_event_def reports_not_found_def

lemma mem_seeded_found:
  "\<forall>e \<in> set (entries x0).
      snd (clusterAlertGroupLister_Get (mem_clients ''c-1'') ''c-1'' (Name (group e)) mem_seeded) = None \<and>
      (\<forall>r \<in> set (rules e).
          snd (clusterAlertRuleLister_Get (mem_clients ''c-1'') ''c-1'' (Name r) mem_seeded) = None)"
  unfolding mem_seeded_def
  by (simp add: run_defs)

subsection \<open>The claims about seeding\<close>

text \<open>
  Claim C3. For every cluster name, every client and every state, the calls of
  \<open>initClusterPreCanAlerts\<close> on the listers and clients it is given are those of
  get-or-create over the static table: for each of the four groups \<^verbatim>\<open>etcd-alert\<close>,
  \<^verbatim>\<open>kube-components-alert\<close>, \<^verbatim>\<open>node-alert\<close> and \<^verbatim>\<open>event-alert\<close>, and then for each rule of
  the group, it asks the lister of that cluster, the answer being the lister's in the
  current state, and it calls \<open>Create\<close> of the client, with the cluster name (and, for a
  rule, the ID of its group) filled in, exactly when that answer reports not found; the
  state it leaves is the one these \<open>Create\<close> calls of the clients leave. So the lister
  calls are the four groups and ten rules in the order of the table, every object
  created is one of the table and its lister reported it not found, and every report of
  not found is followed by a creation.
\<close>

theorem initClusterPreCanAlerts_seeds:
  "let evs = snd (initClusterPreCanAlerts x initAlerts cn s) in
     filter (\<lambda>ev. \<not> is_warning ev) evs = seeding_calls initAlerts (precan_table x cn) s \<and>
     fst (initClusterPreCanAlerts x initAlerts cn s) =
       reconcile_reference (store_client_of initAlerts) (precan_table x cn) s \<and>
     map (\<lambda>e. (Name (group e), map Name (rules e))) (entries x) =
       [(''etcd-alert'',
           [''no-leader'', ''high-number-of-leader-changes'', ''db-over-size'',
            ''etcd-system-service'']),
        (''kube-components-alert'',
           [''scheduler-system-service'', ''controllermanager-system-service'']),
        (''node-alert'', [''node-disk-running-full'', ''high-memmory'', ''high-cpu-load'']),
        (''event-alert'', [''deployment-event-alert''])] \<and>
     group_gets evs =
       map (Pair cn) [''etcd-alert'', ''kube-components-alert'', ''node-alert'', ''event-alert''] \<and>
     rule_gets evs =
       map (Pair cn)
         [''no-leader'', ''high-number-of-leader-changes'', ''db-over-size'',
          ''etcd-system-service'', ''scheduler-system-service'',
          ''controllermanager-system-service'', ''node-disk-running-full'', ''high-memmory'',
          ''high-cpu-load'', ''deployment-event-alert''] \<and>
     (\<forall>g cerr. CreateClusterAlertGroup g cerr \<in> set evs \<longrightarrow>
        (\<exists>e \<in> set (entries x). g = seeded_group cn (group e)) \<and>
        (\<exists>err. IsNotFound err \<and> GetClusterAlertGroup cn (Name g) (Some err) \<in> set evs)) \<and>
     (\<forall>r cerr. CreateClusterAlertRule r cerr \<in> set evs \<longrightarrow>
        (\<exists>e \<in> set (entries x). \<exists>r0 \<in> set (rules e). r = seeded_rule x cn (group e) r0) \<and>
        (\<exists>err. IsNotFound err \<and> GetClusterAlertRule cn (Name r) (Some err) \<in> set evs)) \<and>
     (\<forall>n err. GetClusterAlertGroup cn n (Some err) \<in> set evs \<and> IsNotFound err \<longrightarrow>
        (\<exists>g cerr. Name g = n \<and> CreateClusterAlertGroup g cerr \<in> set evs)) \<and>
     (\<forall>n err. GetClusterAlertRule cn n (Some err) \<in> set evs \<and> IsNotFound err \<longrightarrow>
        (\<exists>r cerr. Name r = n \<and> CreateClusterAlertRule r cerr \<in> set evs))"
proof -
  let ?evs = "snd (initClusterPreCanAlerts x initAlerts cn s)"
  have names: "map (\<lambda>e. (Name (group e), map Name (rules e))) (entries x) =
       [(''etcd-alert'',
           [''no-leader'', ''high-number-of-leader-changes'', ''db-over-size'',
            ''etcd-system-service'']),
        (''kube-components-alert'',
           [''scheduler-system-service'', ''controllermanager-system-service'']),
        (''node-alert'', [''node-disk-running-full'', ''high-memmory'', ''high-cpu-load'']),
        (''event-alert'', [''deployment-event-alert''])]"
    by (simp add: entries_def)
  have gg: "group_gets ?evs =
       map (Pair cn) [''etcd-alert'', ''kube-components-alert'', ''node-alert'', ''event-alert'']"
    unfolding initClusterPreCanAlerts_def entries_loop_gets by (simp add: entries_def)
  have rg: "rule_gets ?evs =
       map (Pair cn)
         [''no-leader'', ''high-number-of-leader-changes'', ''db-over-size'',
          ''etcd-system-service'', ''scheduler-system-service'',
          ''controllermanager-system-service'', ''node-disk-running-full'', ''high-memmory'',
          ''high-cpu-load'', ''deployment-event-alert'']"
    unfolding initClusterPreCanAlerts_def entries_loop_gets by (simp add: entries_def)
  have cg: "(\<exists>e \<in> set (entries x). g = seeded_group cn (group e)) \<and>
        (\<exists>err. IsNotFound err \<and> GetClusterAlertGroup cn (Name g) (Some err) \<in> set ?evs)"
    if "CreateClusterAlertGroup g cerr \<in> set ?evs" for g cerr
    using that unfolding initClusterPreCanAlerts_def by (rule entries_loop_create_group)
  have cr: "(\<exists>e \<in> set (entries x). \<exists>r0 \<in> set (rules e). r = seeded_rule x cn (group e) r0) \<and>
        (\<exists>err. IsNotFound err \<and> GetClusterAlertRule cn (Name r) (Some err) \<in> set ?evs)"
    if "CreateClusterAlertRule r cerr \<in> set ?evs" for r cerr
    using that unfolding initClusterPreCanAlerts_def by (rule entries_loop_create_rule)
  have ng: "\<exists>g cerr. Name g = n \<and> CreateClusterAlertGroup g cerr \<in> set ?evs"
    if "GetClusterAlertGroup cn n (Some err) \<in> set ?evs" "IsNotFound err" for n err
    using that unfolding initClusterPreCanAlerts_def by (rule entries_loop_not_found_creates_group)
  have nr: "\<exists>r cerr. Name r = n \<and> CreateClusterAlertRule r cerr \<in> set ?evs"
    if "GetClusterAlertRule cn n (Some err) \<in> set ?evs" "IsNotFound err" for n err
    using that unfolding initClusterPreCanAlerts_def by (rule entries_loop_not_found_creates_rule)
  have calls: "filter (\<lambda>ev. \<not> is_warning ev) ?evs = seeding_calls initAlerts (precan_table x cn) s"
    unfolding initClusterPreCanAlerts_def precan_table_def by (rule entries_loop_calls)
  have state: "fst (initClusterPreCanAlerts x initAlerts cn s) =
       reconcile_reference (store_client_of initAlerts) (precan_table x cn) s"
    unfolding initClusterPreCanAlerts_def precan_table_def by (rule entries_loop_state)
  show ?thesis
    unfolding Let_def
    apply (intro conjI allI impI)
    subgoal by (rule calls)
    subgoal by (rule state)
    subgoal by (rule names)
    subgoal by (rule gg)
    subgoal by (rule rg)
    subgoal for g cerr using cg [of g cerr] by blast
    subgoal for g cerr using cg [of g cerr] by blast
    subgoal for r cerr using cr [of r cerr] by blast
    subgoal for r cerr using cr [of r cerr] by blast
    subgoal for n err using ng [of n err] by blast
    subgoal for n err using nr [of n err] by blast
    done
qed

theorem initClusterPreCanAlerts_seeds_witness:
  "filter (\<lambda>ev. \<not> is_warning ev)
     (snd (initClusterPreCanAlerts x0 (mem_clients ''c-1'') ''c-1'' mem_empty)) =
     seeding_calls (mem_clients ''c-1'') (precan_table x0 ''c-1'') mem_empty \<and>
   length (filter is_create (seeding_calls (mem_clients ''c-1'') (precan_table x0 ''c-1'') mem_empty)) = 14 \<and>
   map fst (mem_groups (fst (initClusterPreCanAlerts x0 (mem_clients ''c-1'') ''c-1'' mem_empty))) =
     map (Pair ''c-1'') [''etcd-alert'', ''kube-components-alert'', ''node-alert'', ''event-alert''] \<and>
   map fst (mem_rules (fst (initClusterPreCanAlerts x0 (mem_clients ''c-1'') ''c-1'' mem_empty))) =
     map (Pair ''c-1'')
       [''no-leader'', ''high-number-of-leader-changes'', ''db-over-size'',
        ''etcd-system-service'', ''scheduler-system-service'',
        ''controllermanager-system-service'', ''node-disk-running-full'', ''high-memmory'',
        ''high-cpu-load'', ''deployment-event-alert''] \<and>
   filter is_create (seeding_calls (mem_clients ''c-1'') (precan_table x0 ''c-1'') mem_seeded) = [] \<and>
   CreateClusterAlertGroup (seeded_group ''c-1'' (group (hd (entries x0)))) None
     \<in> set (snd (initClusterPreCanAlerts x0 (mem_clients ''c-1'') ''c-1'' mem_empty)) \<and>
   (\<exists>e \<in> set (entries x0).
      seeded_group ''c-1'' (group (hd (entries x0))) = seeded_group ''c-1'' (group e)) \<and>
   (\<exists>err. IsNotFound err \<and>
      GetClusterAlertGroup ''c-1'' (Name (seeded_group ''c-1'' (group (hd (entries x0))))) (Some err)
        \<in> set (snd (initClusterPreCanAlerts x0 (mem_clients ''c-1'') ''c-1'' mem_empty)))"
proof -
  let ?evs = "snd (initClusterPreCanAlerts x0 (mem_clients ''c-1'') ''c-1'' mem_empty)"
  let ?g = "seeded_group ''c-1'' (group (hd (entries x0)))"
  note t = initClusterPreCanAlerts_seeds [of x0 "mem_clients ''c-1''" "''c-1''" mem_empty,
      unfolded Let_def]
  note t2 = initClusterPreCanAlerts_seeds [of x0 "mem_clients ''c-1''" "''c-1''" mem_seeded,
      unfolded Let_def]
  have calls: "filter (\<lambda>ev. \<not> is_warning ev) ?evs =
      seeding_calls (mem_clients ''c-1'') (precan_table x0 ''c-1'') mem_empty"
    using t by blast
  have n: "length (filter is_create
      (seeding_calls (mem_clients ''c-1'') (precan_table x0 ''c-1'') mem_empty)) = 14"
    by (simp add: run_defs call_defs seeded_group_def seeded_rule_def)
  have st: "fst (initClusterPreCanAlerts x0 (mem_clients ''c-1'') ''c-1'' mem_empty) =
      reconcile_reference (store_client_of (mem_clients ''c-1'')) (precan_table x0 ''c-1'') mem_empty"
    using t by blast
  have gs: "map fst (mem_groups (reconcile_reference (store_client_of (mem_clients ''c-1''))
                (precan_table x0 ''c-1'') mem_empty)) =
     map (Pair ''c-1'') [''etcd-alert'', ''kube-components-alert'', ''node-alert'', ''event-alert''] \<and>
     map fst (mem_rules (reconcile_reference (store_client_of (mem_clients ''c-1''))
                (precan_table x0 ''c-1'') mem_empty)) =
     map (Pair ''c-1'')
       [''no-leader'', ''high-number-of-leader-changes'', ''db-over-size'',
        ''etcd-system-service'', ''scheduler-system-service'',
        ''controllermanager-system-service'', ''node-disk-running-full'', ''high-memmory'',
        ''high-cpu-load'', ''deployment-event-alert'']"
    by (simp add: run_defs call_defs seeded_group_def seeded_rule_def)
  have "snd (initClusterPreCanAlerts x0 (mem_clients ''c-1'') ''c-1'' mem_seeded) =
          lookups ''c-1'' (entries x0)"
    unfolding initClusterPreCanAlerts_def
    using entries_loop_found [OF mem_seeded_found, of x0] by simp
  moreover have "filter (\<lambda>ev. \<not> is_warning ev) (lookups ''c-1'' (entries x0)) =
      lookups ''c-1'' (entries x0)"
    by (simp add: lookups_def entries_def)
  moreover have "filter is_create (lookups ''c-1'' (entries x0)) = []"
    by (simp add: lookups_def entries_def)
  ultimately have again:
    "filter is_create (seeding_calls (mem_clients ''c-1'') (precan_table x0 ''c-1'') mem_seeded) = []"
    using t2 by simp
  have m: "CreateClusterAlertGroup ?g None \<in> set ?evs"
    by (simp add: run_defs seeded_group_def)
  from t have "CreateClusterAlertGroup ?g None \<in> set ?evs \<longrightarrow>
        (\<exists>e \<in> set (entries x0). ?g = seeded_group ''c-1'' (group e)) \<and>
        (\<exists>err. IsNotFound err \<and> GetClusterAlertGroup ''c-1'' (Name ?g) (Some err) \<in> set ?evs)"
    by blast
  with m have c: "(\<exists>e \<in> set (entries x0). ?g = seeded_group ''c-1'' (group e)) \<and>
        (\<exists>err. IsNotFound err \<and> GetClusterAlertGroup ''c-1'' (Name ?g) (Some err) \<in> set ?evs)"
    by blast
  from calls n st gs again m c show ?thesis by simp
qed

text \<open>
  Claim C4. Seeding is idempotent: in a state where the listers return every group and
  every rule of the table without error, \<open>initClusterPreCanAlerts\<close> only looks them up.
  It issues no \<open>Create\<close> call and logs nothing, and it leaves the state as it is; so a
  second run in the state the first one leaves changes nothing.
\<close>

theorem initClusterPreCanAlerts_idempotent:
  assumes "\<forall>e \<in> set (entries x).
      snd (clusterAlertGroupLister_Get initAlerts cn (Name (group e)) s) = None \<and>
      (\<forall>r \<in> set (rules e). snd (clusterAlertRuleLister_Get initAlerts cn (Name r) s) = None)"
  shows "initClusterPreCanAlerts x initAlerts cn s = (s, lookups cn (entries x)) \<and>
         filter is_create (snd (initClusterPreCanAlerts x initAlerts cn s)) = [] \<and>
         warnings (snd (initClusterPreCanAlerts x initAlerts cn s)) = [] \<and>
         fst (initClusterPreCanAlerts x initAlerts cn
                (fst (initClusterPreCanAlerts x initAlerts cn s))) =
           fst (initClusterPreCanAlerts x initAlerts cn s)"
proof -
  have run: "initClusterPreCanAlerts x initAlerts cn s = (s, lookups cn (entries x))"
    unfolding initClusterPreCanAlerts_def using assms by (rule entries_loop_found)
  have "filter is_create (lookups cn es) = []" for es
    by (induction es) (simp_all add: lookups_def filter_empty_conv)
  moreover have "warnings (lookups cn es) = []" for es
    by (induction es) (simp_all add: lookups_def warnings_def)
  ultimately show ?thesis
    using run by simp
qed

theorem initClusterPreCanAlerts_idempotent_witness:
  "initClusterPreCanAlerts x0 (mem_clients ''c-1'') ''c-1'' mem_seeded =
     (mem_seeded, lookups ''c-1'' (entries x0)) \<and>
   filter is_create (snd (initClusterPreCanAlerts x0 (mem_clients ''c-1'') ''c-1'' mem_seeded)) = [] \<and>
   warnings (snd (initClusterPreCanAlerts x0 (mem_clients ''c-1'') ''c-1'' mem_seeded)) = [] \<and>
   fst (initClusterPreCanAlerts x0 (mem_clients ''c-1'') ''c-1''
          (fst (initClusterPreCanAlerts x0 (mem_clients ''c-1'') ''c-1'' mem_seeded))) =
     fst (initClusterPreCanAlerts x0 (mem_clients ''c-1'') ''c-1'' mem_seeded)"
  using initClusterPreCanAlerts_idempotent [OF mem_seeded_found] .

text \<open>
  Claim C5. \<open>initClusterPreCanAlerts\<close> refines the reference reconciliation: for every
  client and every state, it leaves the state that the reference leaves on the table of
  groups and rules, the cluster name and the group ID filled in. The clients are
  arbitrary functions on the state, so the two make the same \<open>Create\<close> calls in the same
  order.
\<close>

theorem initClusterPreCanAlerts_refines_reference:
  "fst (initClusterPreCanAlerts x initAlerts cn s) =
     reconcile_reference (store_client_of initAlerts) (precan_table x cn) s"
  unfolding initClusterPreCanAlerts_def precan_table_def by (rule entries_loop_state)

theorem initClusterPreCanAlerts_refines_reference_witness:
  "mem_seeded =
     reconcile_reference (store_client_of (mem_clients ''c-1'')) (precan_table x0 ''c-1'') mem_empty"
  using initClusterPreCanAlerts_refines_reference [of x0 "mem_clients ''c-1''" "''c-1''" mem_empty]
  by (simp add: mem_seeded_def)


text \<open>
  Claim C6. The static table holds exactly one rule named
  \<^verbatim>\<open>high-number-of-leader-changes\<close>, in the group \<^verbatim>\<open>etcd-alert\<close>. Its metric expression is
  \<^verbatim>\<open>increase(etcd_server_leader_changes_seen_total[1h])\<close>, its comparison is greater-than,
  its threshold value is 3 and its severity is warning; seeding keeps all of them.
\<close>

theorem etcd_leader_changes_rule:
  "\<exists>r m.
     filter (\<lambda>r. Name r = ''high-number-of-leader-changes'') (concat (map rules (entries x))) = [r] \<and>
     filter (\<lambda>r. Name r = ''high-number-of-leader-changes'')
       (concat (map rules (filter (\<lambda>e. Name (group e) = ''etcd-alert'') (entries x)))) = [r] \<and>
     MetricRule (Spec r) = Some m \<and>
     Expression m = ''increase(etcd_server_leader_changes_seen_total[1h])'' \<and>
     Comparison m = ComparisonGreaterThan \<and>
     ThresholdValue m = 3 \<and>
     Severity (Spec r) = SeverityWarning \<and>
     (\<forall>cn g. MetricRule (Spec (seeded_rule x cn g r)) = Some m \<and>
             Severity (Spec (seeded_rule x cn g r)) = SeverityWarning)"
  by (simp add: entries_def seeded_rule_def)

text \<open>
  Claim C7. The static table holds exactly one rule named \<^verbatim>\<open>high-memmory\<close>, in the group
  \<^verbatim>\<open>node-alert\<close>. Its metric expression is the node memory utilization in percent, its
  comparison is greater-or-equal, its threshold value is 80 and its severity is warning;
  seeding keeps all of them.
\<close>

theorem node_high_memory_rule:
  "\<exists>r m.
     filter (\<lambda>r. Name r = ''high-memmory'') (concat (map rules (entries x))) = [r] \<and>
     filter (\<lambda>r. Name r = ''high-memmory'')
       (concat (map rules (filter (\<lambda>e. Name (group e) = ''node-alert'') (entries x)))) = [r] \<and>
     MetricRule (Spec r) = Some m \<and>
     Expression m = ''(1 - sum(node_memory_MemAvailable_bytes) by (instance) / sum(node_memory_MemTotal_bytes) by (instance)) * 100'' \<and>
     Comparison m = ComparisonGreaterOrEqual \<and>
     ThresholdValue m = 80 \<and>
     Severity (Spec r) = SeverityWarning \<and>
     (\<forall>cn g. MetricRule (Spec (seeded_rule x cn g r)) = Some m \<and>
             Severity (Spec (seeded_rule x cn g r)) = SeverityWarning)"
  by (simp add: entries_def seeded_rule_def)

section \<open>Properties of the project lifecycle\<close>

lemma filter_is_create_warning [simp]:
  "filter is_create (case err of None \<Rightarrow> [] | Some e \<Rightarrow> if P e then [Warnf (m e)] else []) = []"
  by (cases err) simp_all

text \<open>
  Claim C9. For every project, every client and every state, \<open>ProjectLifecycle.Create\<close>
  makes exactly three \<open>Create\<close> calls on the clients it is given, each in the state the
  previous one leaves, and returns the state the last one leaves: the group
  \<^verbatim>\<open>projectalert-workload-alert\<close>, the rule \<^verbatim>\<open>less-than-half-workload-available\<close>
  (critical, available percentage 50) and the rule \<^verbatim>\<open>memory-close-to-resource-limited\<close>
  (warning, memory against its limit, greater than the threshold 1). Each is in the
  namespace named after the project, carries the project ID, and both rules refer to
  the ID of the group.
\<close>

theorem ProjectLifecycle_Create_seeds:
  \<open>\<exists>g r1 r2 w m.
     ProjectLifecycle_Create x l obj s =
       ((obj, None),
        snd (projectAlertRules_Create l r2
               (snd (projectAlertRules_Create l r1 (snd (projectAlertGroups_Create l g s))))),
        snd (snd (ProjectLifecycle_Create x l obj s))) \<and>
     filter is_create (snd (snd (ProjectLifecycle_Create x l obj s))) =
       [CreateProjectAlertGroup g (fst (projectAlertGroups_Create l g s)),
        CreateProjectAlertRule r1
          (fst (projectAlertRules_Create l r1 (snd (projectAlertGroups_Create l g s)))),
        CreateProjectAlertRule r2
          (fst (projectAlertRules_Create l r2
                  (snd (projectAlertRules_Create l r1 (snd (projectAlertGroups_Create l g s))))))] \<and>
     Name g = ''projectalert-workload-alert'' \<and>
     Namespace g = Name obj \<and>
     ProjectGroupSpec.ProjectName (Spec g) = Namespace obj @ '':'' @ Name obj \<and>
     Name r1 = ''less-than-half-workload-available'' \<and>
     Namespace r1 = Name obj \<and>
     ProjectAlertRuleSpec.ProjectName (Spec r1) = Namespace obj @ '':'' @ Name obj \<and>
     ProjectAlertRuleSpec.GroupName (Spec r1) = common_GetGroupID x (Name obj) (Name g) \<and>
     Severity (Spec r1) = SeverityCritical \<and>
     WorkloadRule (Spec r1) = Some w \<and>
     AvailablePercentage w = 50 \<and>
     ProjectAlertRuleSpec.MetricRule (Spec r1) = None \<and>
     Name r2 = ''memory-close-to-resource-limited'' \<and>
     Namespace r2 = Name obj \<and>
     ProjectAlertRuleSpec.ProjectName (Spec r2) = Namespace obj @ '':'' @ Name obj \<and>
     ProjectAlertRuleSpec.GroupName (Spec r2) = common_GetGroupID x (Name obj) (Name g) \<and>
     Severity (Spec r2) = SeverityWarning \<and>
     WorkloadRule (Spec r2) = None \<and>
     ProjectAlertRuleSpec.MetricRule (Spec r2) = Some m \<and>
     Expression m = ''sum(container_memory_working_set_bytes) by (pod_name, container_name) / sum(label_join(label_join(kube_pod_container_resource_limits_memory_bytes,"pod_name", "", "pod"),"container_name", "", "container")) by (pod_name, container_name)'' \<and>
     Comparison m = ComparisonGreaterThan \<and>
     ThresholdValue m = 1\<close>
  unfolding ProjectLifecycle_Create_def
  by (simp add: Let_def case_prod_beta)

theorem ProjectLifecycle_Create_seeds_witness:
  "fst (snd (ProjectLifecycle_Create x0 l_recording project0 [])) =
     [''projectalert-workload-alert'', ''less-than-half-workload-available'',
      ''memory-close-to-resource-limited''] \<and>
   length (filter is_create (snd (snd (ProjectLifecycle_Create x0 l_recording project0 [])))) = 3"
proof -
  from ProjectLifecycle_Create_seeds [of x0 l_recording project0 "[]"]
  obtain g r1 r2 where
    run: "ProjectLifecycle_Create x0 l_recording project0 [] =
       ((project0, None),
        snd (projectAlertRules_Create l_recording r2
               (snd (projectAlertRules_Create l_recording r1
                       (snd (projectAlertGroups_Create l_recording g []))))),
        snd (snd (ProjectLifecycle_Create x0 l_recording project0 [])))" and
    calls: "filter is_create (snd (snd (ProjectLifecycle_Create x0 l_recording project0 []))) =
       [CreateProjectAlertGroup g (fst (projectAlertGroups_Create l_recording g [])),
        CreateProjectAlertRule r1
          (fst (projectAlertRules_Create l_recording r1
                  (snd (projectAlertGroups_Create l_recording g [])))),
        CreateProjectAlertRule r2
          (fst (projectAlertRules_Create l_recording r2
                  (snd (projectAlertRules_Create l_recording r1
                          (snd (projectAlertGroups_Create l_recording g []))))))]" and
    names: "Name g = ''projectalert-workload-alert''"
      "Name r1 = ''less-than-half-workload-available''"
      "Name r2 = ''memory-close-to-resource-limited''"
    by blast
  have "fst (snd (ProjectLifecycle_Create x0 l_recording project0 [])) =
          snd (projectAlertRules_Create l_recording r2
               (snd (projectAlertRules_Create l_recording r1
                       (snd (projectAlertGroups_Create l_recording g [])))))"
    by (subst run) simp
  then have "fst (snd (ProjectLifecycle_Create x0 l_recording project0 [])) =
     [''projectalert-workload-alert'', ''less-than-half-workload-available'',
      ''memory-close-to-resource-limited'']"
    using names by (simp add: l_recording_def)
  moreover have
    "length (filter is_create (snd (snd (ProjectLifecycle_Create x0 l_recording project0 [])))) = 3"
    by (subst calls) simp
  ultimately show ?thesis by simp
qed

lemma failed_create_warning:
  "\<exists>e. err = Some e \<and> \<not> IsAlreadyExists e \<Longrightarrow>
   (case err of None \<Rightarrow> [] | Some e \<Rightarrow> if \<not> IsAlreadyExists e then [Warnf (m e)] else []) =
     [Warnf (m (the err))]"
  by auto

text \<open>
  Claim C10. \<open>ProjectLifecycle.Create\<close>, \<open>Updated\<close> and \<open>Remove\<close> return the project they
  were given and a nil error, whatever the clients answer. When every \<open>Create\<close> call fails
  with an error that is not already-exists, \<open>Create\<close> logs three warnings and still
  returns the project and a nil error.
\<close>

theorem ProjectLifecycle_never_fails:
  "fst (ProjectLifecycle_Create x l obj s) = (obj, None) \<and>
   ProjectLifecycle_Updated l obj s = ((obj, None), s, []) \<and>
   ProjectLifecycle_Remove l obj s = ((obj, None), s, []) \<and>
   ((\<forall>g s'. \<exists>e. fst (projectAlertGroups_Create l g s') = Some e \<and> \<not> IsAlreadyExists e) \<and>
    (\<forall>r s'. \<exists>e. fst (projectAlertRules_Create l r s') = Some e \<and> \<not> IsAlreadyExists e) \<longrightarrow>
      length (warnings (snd (snd (ProjectLifecycle_Create x l obj s)))) = 3 \<and>
      fst (ProjectLifecycle_Create x l obj s) = (obj, None))"
proof -
  have a: "fst (ProjectLifecycle_Create x l obj s) = (obj, None)"
    unfolding ProjectLifecycle_Create_def by (simp add: Let_def case_prod_beta)
  have b: "length (warnings (snd (snd (ProjectLifecycle_Create x l obj s)))) = 3"
    if g: "\<forall>g s'. \<exists>e. fst (projectAlertGroups_Create l g s') = Some e \<and> \<not> IsAlreadyExists e"
    and r: "\<forall>r s'. \<exists>e. fst (projectAlertRules_Create l r s') = Some e \<and> \<not> IsAlreadyExists e"
    unfolding ProjectLifecycle_Create_def Let_def case_prod_beta
    using g r by (simp add: warnings_def failed_create_warning)
  show ?thesis
    using a b by (simp add: ProjectLifecycle_Updated_def ProjectLifecycle_Remove_def)
qed

theorem ProjectLifecycle_never_fails_witness:
  "length (warnings (snd (snd (ProjectLifecycle_Create x0 l_refused project0 mem_empty)))) = 3 \<and>
   fst (ProjectLifecycle_Create x0 l_refused project0 mem_empty) = (project0, None)"
  using ProjectLifecycle_never_fails [of x0 l_refused project0 mem_empty]
  by (simp add: l_refused_def refused_def)

section \<open>Properties of the Windows node syncer\<close>

lemma initClusterWindowsAlert_creates:
  "ev \<in> set (snd (snd (initClusterWindowsAlert x l s))) \<Longrightarrow> is_create ev \<Longrightarrow>
   fst (clusterAlertRules_Controller_Lister_Get l (windowsNodeSyner.clusterName l)
          ''windows-node-disk-running-full'' s) = None \<and>
   (\<exists>r. ev = CreateClusterAlertRule r (fst (windowsNodeSyner.clusterAlertRules_Create l r s)) \<and>
      fst (snd (initClusterWindowsAlert x l s)) =
        snd (windowsNodeSyner.clusterAlertRules_Create l r s) \<and>
      Name r = ''windows-node-disk-running-full'' \<and>
      ClusterAlertRuleSpec.ClusterName (Spec r) = windowsNodeSyner.clusterName l \<and>
      ClusterAlertRuleSpec.GroupName (Spec r) =
        common_GetGroupID x (windowsNodeSyner.clusterName l) ''node-alert'' \<and>
      Severity (Spec r) = SeverityCritical)"
  unfolding initClusterWindowsAlert_def nodeAlertGroupName_def
  by (auto simp: Let_def case_prod_beta split: if_splits)

lemma initClusterWindowsAlert_no_create:
  "\<not> (\<exists>ev \<in> set (snd (snd (initClusterWindowsAlert x l s))). is_create ev) \<Longrightarrow>
   fst (snd (initClusterWindowsAlert x l s)) = s"
  unfolding initClusterWindowsAlert_def
  by (auto simp: Let_def case_prod_beta split: if_splits)

lemma initClusterWindowsAlert_exists:
  "fst (clusterAlertRules_Controller_Lister_Get l (windowsNodeSyner.clusterName l)
          ''windows-node-disk-running-full'' s) \<noteq> None \<Longrightarrow>
   fst (snd (initClusterWindowsAlert x l s)) = s \<and>
   filter is_create (snd (snd (initClusterWindowsAlert x l s))) = []"
  unfolding initClusterWindowsAlert_def
  by (auto simp: Let_def case_prod_beta)

lemma initClusterWindowsAlert_absent:
  "fst (clusterAlertRules_Controller_Lister_Get l (windowsNodeSyner.clusterName l)
          ''windows-node-disk-running-full'' s) = None \<Longrightarrow>
   \<not> (case snd (clusterAlertRules_Controller_Lister_Get l (windowsNodeSyner.clusterName l)
                  ''windows-node-disk-running-full'' s)
      of None \<Rightarrow> False | Some e \<Rightarrow> \<not> IsNotFound e) \<Longrightarrow>
   \<exists>r. Name r = ''windows-node-disk-running-full'' \<and>
      ClusterAlertRuleSpec.ClusterName (Spec r) = windowsNodeSyner.clusterName l \<and>
      ClusterAlertRuleSpec.GroupName (Spec r) =
        common_GetGroupID x (windowsNodeSyner.clusterName l) ''node-alert'' \<and>
      Severity (Spec r) = SeverityCritical \<and>
      initClusterWindowsAlert x l s =
        ((case fst (windowsNodeSyner.clusterAlertRules_Create l r s) of
            None \<Rightarrow> None
          | Some ce \<Rightarrow>
              if IsAlreadyExists ce then None
              else Some (Wrapf ce ''Failed to create precan rules windows-node-disk-running-full'')),
         snd (windowsNodeSyner.clusterAlertRules_Create l r s),
         [GetClusterAlertRule (windowsNodeSyner.clusterName l) ''windows-node-disk-running-full''
            (snd (clusterAlertRules_Controller_Lister_Get l (windowsNodeSyner.clusterName l)
                    ''windows-node-disk-running-full'' s)),
          CreateClusterAlertRule r (fst (windowsNodeSyner.clusterAlertRules_Create l r s))])"
  unfolding initClusterWindowsAlert_def nodeAlertGroupName_def
  by (auto simp: Let_def case_prod_beta split: option.splits)

lemma matches_windowNodeLabel:
  "matches windowNodeLabel labels \<longleftrightarrow> map_of labels ''kubernetes.io/os'' = Some ''windows''"
  by (simp add: matches_def windowNodeLabel_def)

text \<open>
  Claim C8. When the node lister returns, without error, at least one node for the
  selector \<^verbatim>\<open>kubernetes.io/os=windows\<close>, and the rule lister returns no rule and no error
  other than not found, \<open>windowsNodeSyner.Sync\<close> calls \<open>Create\<close> of its rule client on the
  rule \<^verbatim>\<open>windows-node-disk-running-full\<close>, of critical severity, in the group \<^verbatim>\<open>node-alert\<close>
  of its cluster: it leaves the state this call leaves, and returns the object with the
  error of the call, unless nil or already-exists, wrapped. It creates nothing else,
  and creates only in that case: when the node lister selects from a cache, a node of
  the cache carries the label. Without a creation the state is left as it is. When the
  node lister returns no node, \<open>Sync\<close> calls nothing else and returns the object it was
  given and a nil error. When the rule exists, it creates nothing.
\<close>

theorem Sync_provisions_windows_rule:
  "let nodes = fst (nodeLister_List l NamespaceAll windowNodeLabel s);
       lerr = snd (nodeLister_List l NamespaceAll windowNodeLabel s);
       exist = fst (clusterAlertRules_Controller_Lister_Get l (windowsNodeSyner.clusterName l)
                      ''windows-node-disk-running-full'' s);
       gerr = snd (clusterAlertRules_Controller_Lister_Get l (windowsNodeSyner.clusterName l)
                     ''windows-node-disk-running-full'' s);
       evs = snd (snd (Sync x l key obj s))
   in (lerr = None \<and> nodes \<noteq> [] \<and> exist = None \<and>
       \<not> (case gerr of None \<Rightarrow> False | Some e \<Rightarrow> \<not> IsNotFound e) \<longrightarrow>
         (\<exists>r. Name r = ''windows-node-disk-running-full'' \<and>
            ClusterAlertRuleSpec.ClusterName (Spec r) = windowsNodeSyner.clusterName l \<and>
            ClusterAlertRuleSpec.GroupName (Spec r) =
              common_GetGroupID x (windowsNodeSyner.clusterName l) ''node-alert'' \<and>
            Severity (Spec r) = SeverityCritical \<and>
            Sync x l key obj s =
              ((obj,
                case fst (windowsNodeSyner.clusterAlertRules_Create l r s) of
                  None \<Rightarrow> None
                | Some ce \<Rightarrow>
                    if IsAlreadyExists ce then None
                    else Some (Wrapf ce ''Failed to create precan rules windows-node-disk-running-full'')),
               snd (windowsNodeSyner.clusterAlertRules_Create l r s),
               [ListNodes NamespaceAll windowNodeLabel None,
                GetClusterAlertRule (windowsNodeSyner.clusterName l)
                  ''windows-node-disk-running-full'' gerr,
                CreateClusterAlertRule r (fst (windowsNodeSyner.clusterAlertRules_Create l r s))]))) \<and>
      (\<forall>ev \<in> set evs. is_create ev \<longrightarrow>
         lerr = None \<and> nodes \<noteq> [] \<and> exist = None \<and>
         (\<exists>r. ev = CreateClusterAlertRule r (fst (windowsNodeSyner.clusterAlertRules_Create l r s)) \<and>
            fst (snd (Sync x l key obj s)) = snd (windowsNodeSyner.clusterAlertRules_Create l r s) \<and>
            Name r = ''windows-node-disk-running-full'' \<and>
            ClusterAlertRuleSpec.ClusterName (Spec r) = windowsNodeSyner.clusterName l \<and>
            ClusterAlertRuleSpec.GroupName (Spec r) =
              common_GetGroupID x (windowsNodeSyner.clusterName l) ''node-alert'' \<and>
            Severity (Spec r) = SeverityCritical)) \<and>
      (\<not> (\<exists>ev \<in> set evs. is_create ev) \<longrightarrow> fst (snd (Sync x l key obj s)) = s) \<and>
      (\<forall>cache. nodes = filter (\<lambda>n. matches windowNodeLabel (Labels n)) cache \<and>
               (\<exists>ev \<in> set evs. is_create ev) \<longrightarrow>
         (\<exists>n \<in> set cache. map_of (Labels n) ''kubernetes.io/os'' = Some ''windows'')) \<and>
      (lerr = None \<and> nodes = [] \<longrightarrow>
         Sync x l key obj s = ((obj, None), s, [ListNodes NamespaceAll windowNodeLabel None])) \<and>
      (exist \<noteq> None \<longrightarrow>
         filter is_create evs = [] \<and> fst (snd (Sync x l key obj s)) = s)"
proof -
  let ?nodes = "fst (nodeLister_List l NamespaceAll windowNodeLabel s)"
  let ?lerr = "snd (nodeLister_List l NamespaceAll windowNodeLabel s)"
  let ?exist = "fst (clusterAlertRules_Controller_Lister_Get l (windowsNodeSyner.clusterName l)
                      ''windows-node-disk-running-full'' s)"
  let ?gerr = "snd (clusterAlertRules_Controller_Lister_Get l (windowsNodeSyner.clusterName l)
                     ''windows-node-disk-running-full'' s)"
  let ?evs = "snd (snd (Sync x l key obj s))"
  let ?list = "ListNodes NamespaceAll windowNodeLabel ?lerr"
  have sync: "Sync x l key obj s =
      (case ?lerr of
         Some e \<Rightarrow> ((None, Some (Wrapf e ''failed to list nodes'')), s, [?list])
       | None \<Rightarrow>
           if ?nodes \<noteq> []
           then ((obj, fst (initClusterWindowsAlert x l s)),
                 fst (snd (initClusterWindowsAlert x l s)),
                 ?list # snd (snd (initClusterWindowsAlert x l s)))
           else ((obj, None), s, [?list]))"
    unfolding Sync_def by (simp add: Let_def case_prod_beta split: option.splits)
  have a: "?lerr = None \<and> ?nodes \<noteq> [] \<and> ?exist = None \<and>
         (\<exists>r. ev = CreateClusterAlertRule r (fst (windowsNodeSyner.clusterAlertRules_Create l r s)) \<and>
            fst (snd (Sync x l key obj s)) = snd (windowsNodeSyner.clusterAlertRules_Create l r s) \<and>
            Name r = ''windows-node-disk-running-full'' \<and>
            ClusterAlertRuleSpec.ClusterName (Spec r) = windowsNodeSyner.clusterName l \<and>
            ClusterAlertRuleSpec.GroupName (Spec r) =
              common_GetGroupID x (windowsNodeSyner.clusterName l) ''node-alert'' \<and>
            Severity (Spec r) = SeverityCritical)"
    if "ev \<in> set ?evs" "is_create ev" for ev
  proof -
    from that have n: "?lerr = None" "?nodes \<noteq> []"
      and m: "ev \<in> set (snd (snd (initClusterWindowsAlert x l s)))"
      unfolding sync by (auto split: option.splits if_splits)
    have st: "fst (snd (Sync x l key obj s)) = fst (snd (initClusterWindowsAlert x l s))"
      unfolding sync using n by simp
    from initClusterWindowsAlert_creates [OF m that(2)] n st show ?thesis by simp
  qed
  have a': "fst (snd (Sync x l key obj s)) = s" if "\<not> (\<exists>ev \<in> set ?evs. is_create ev)"
  proof (cases "?lerr = None \<and> ?nodes \<noteq> []")
    case True
    then have "set (snd (snd (initClusterWindowsAlert x l s))) \<subseteq> set ?evs"
      unfolding sync by auto
    with that have "\<not> (\<exists>ev \<in> set (snd (snd (initClusterWindowsAlert x l s))). is_create ev)"
      by blast
    from initClusterWindowsAlert_no_create [OF this] True show ?thesis
      unfolding sync by simp
  next
    case False
    then show ?thesis unfolding sync by (auto split: option.splits)
  qed
  have b: "\<exists>n \<in> set cache. map_of (Labels n) ''kubernetes.io/os'' = Some ''windows''"
    if "?nodes = filter (\<lambda>n. matches windowNodeLabel (Labels n)) cache"
       "\<exists>ev \<in> set ?evs. is_create ev" for cache
  proof -
    from that(2) a have "?nodes \<noteq> []" by blast
    with that(1) obtain n where "n \<in> set cache" "matches windowNodeLabel (Labels n)"
      by (auto simp: filter_empty_conv)
    then show ?thesis unfolding matches_windowNodeLabel by blast
  qed
  have c: "Sync x l key obj s = ((obj, None), s, [ListNodes NamespaceAll windowNodeLabel None])"
    if "?lerr = None" "?nodes = []"
    unfolding sync using that by simp
  have d: "filter is_create ?evs = [] \<and> fst (snd (Sync x l key obj s)) = s"
    if "?exist \<noteq> None"
    unfolding sync using initClusterWindowsAlert_exists [OF that, of x]
    by (simp split: option.splits)
  have e: "\<exists>r. Name r = ''windows-node-disk-running-full'' \<and>
            ClusterAlertRuleSpec.ClusterName (Spec r) = windowsNodeSyner.clusterName l \<and>
            ClusterAlertRuleSpec.GroupName (Spec r) =
              common_GetGroupID x (windowsNodeSyner.clusterName l) ''node-alert'' \<and>
            Severity (Spec r) = SeverityCritical \<and>
            Sync x l key obj s =
              ((obj,
                case fst (windowsNodeSyner.clusterAlertRules_Create l r s) of
                  None \<Rightarrow> None
                | Some ce \<Rightarrow>
                    if IsAlreadyExists ce then None
                    else Some (Wrapf ce ''Failed to create precan rules windows-node-disk-running-full'')),
               snd (windowsNodeSyner.clusterAlertRules_Create l r s),
               [ListNodes NamespaceAll windowNodeLabel None,
                GetClusterAlertRule (windowsNodeSyner.clusterName l)
                  ''windows-node-disk-running-full'' ?gerr,
                CreateClusterAlertRule r (fst (windowsNodeSyner.clusterAlertRules_Create l r s))])"
    if "?lerr = None" "?nodes \<noteq> []" "?exist = None"
       "\<not> (case ?gerr of None \<Rightarrow> False | Some e \<Rightarrow> \<not> IsNotFound e)"
  proof -
    from initClusterWindowsAlert_absent [OF that(3) that(4), of x]
    obtain r where r: "Name r = ''windows-node-disk-running-full''"
      "ClusterAlertRuleSpec.ClusterName (Spec r) = windowsNodeSyner.clusterName l"
      "ClusterAlertRuleSpec.GroupName (Spec r) =
         common_GetGroupID x (windowsNodeSyner.clusterName l) ''node-alert''"
      "Severity (Spec r) = SeverityCritical"
      and i: "initClusterWindowsAlert x l s =
        ((case fst (windowsNodeSyner.clusterAlertRules_Create l r s) of
            None \<Rightarrow> None
          | Some ce \<Rightarrow>
              if IsAlreadyExists ce then None
              else Some (Wrapf ce ''Failed to create precan rules windows-node-disk-running-full'')),
         snd (windowsNodeSyner.clusterAlertRules_Create l r s),
         [GetClusterAlertRule (windowsNodeSyner.clusterName l) ''windows-node-disk-running-full'' ?gerr,
          CreateClusterAlertRule r (fst (windowsNodeSyner.clusterAlertRules_Create l r s))])"
      by blast
    have "Sync x l key obj s =
              ((obj,
                case fst (windowsNodeSyner.clusterAlertRules_Create l r s) of
                  None \<Rightarrow> None
                | Some ce \<Rightarrow>
                    if IsAlreadyExists ce then None
                    else Some (Wrapf ce ''Failed to create precan rules windows-node-disk-running-full'')),
               snd (windowsNodeSyner.clusterAlertRules_Create l r s),
               [ListNodes NamespaceAll windowNodeLabel None,
                GetClusterAlertRule (windowsNodeSyner.clusterName l)
                  ''windows-node-disk-running-full'' ?gerr,
                CreateClusterAlertRule r (fst (windowsNodeSyner.clusterAlertRules_Create l r s))])"
      unfolding sync i using that(1,2) by simp
    with r show ?thesis by blast
  qed
  show ?thesis
    unfolding Let_def
    apply (intro conjI ballI allI impI)
    subgoal using e by blast
    subgoal for ev using a [of ev] by blast
    subgoal for ev using a [of ev] by blast
    subgoal for ev using a [of ev] by blast
    subgoal for ev using a [of ev] by blast
    subgoal using a' by blast
    subgoal for cache using b [of cache] by blast
    subgoal using c by blast
    subgoal using d by blast
    subgoal using d by blast
    done
qed

theorem Sync_provisions_windows_rule_witness:
  "(\<exists>r. Name r = ''windows-node-disk-running-full'' \<and>
      Sync x0 (mem_syncer nodes0) ''worker-2'' None mem_empty =
        ((None, None),
         \<lparr>mem_groups = [], mem_rules = [((''c-1'', ''windows-node-disk-running-full''), r)]\<rparr>,
         [ListNodes NamespaceAll windowNodeLabel None,
          GetClusterAlertRule ''c-1'' ''windows-node-disk-running-full'' (Some not_found),
          CreateClusterAlertRule r None])) \<and>
   (\<exists>n \<in> set nodes0. map_of (Labels n) ''kubernetes.io/os'' = Some ''windows'') \<and>
   Sync x0 (mem_syncer []) ''worker-2'' None mem_empty =
     ((None, None), mem_empty, [ListNodes NamespaceAll windowNodeLabel None])"
proof -
  let ?evs = "snd (snd (Sync x0 (mem_syncer nodes0) ''worker-2'' None mem_empty))"
  note t = Sync_provisions_windows_rule [of "mem_syncer nodes0" mem_empty x0 "''worker-2''" None,
      unfolded Let_def]
  have l: "nodeLister_List (mem_syncer nodes0) NamespaceAll windowNodeLabel mem_empty =
             ([\<lparr>Name = ''worker-2'', Namespace = '''', Labels = [(''kubernetes.io/os'', ''windows'')]\<rparr>], None)"
    by (simp add: mem_syncer_def nodes0_def matches_def windowNodeLabel_def)
  have g: "clusterAlertRules_Controller_Lister_Get (mem_syncer nodes0)
             (windowsNodeSyner.clusterName (mem_syncer nodes0))
             ''windows-node-disk-running-full'' mem_empty = (None, Some not_found)"
    by (simp add: mem_syncer_def mem_clients_def mem_empty_def)
  have cn: "windowsNodeSyner.clusterName (mem_syncer nodes0) = ''c-1''"
    by (simp add: mem_syncer_def)
  have cr: "windowsNodeSyner.clusterAlertRules_Create (mem_syncer nodes0) r mem_empty =
              (None, \<lparr>mem_groups = [], mem_rules = [((''c-1'', Name r), r)]\<rparr>)" for r
    by (simp add: mem_syncer_def mem_clients_def mem_empty_def)
  from t l g have "\<exists>r. Name r = ''windows-node-disk-running-full'' \<and>
      Sync x0 (mem_syncer nodes0) ''worker-2'' None mem_empty =
        ((None, None),
         \<lparr>mem_groups = [], mem_rules = [((''c-1'', Name r), r)]\<rparr>,
         [ListNodes NamespaceAll windowNodeLabel None,
          GetClusterAlertRule ''c-1'' ''windows-node-disk-running-full'' (Some not_found),
          CreateClusterAlertRule r None])"
    by (simp add: not_found_def cn cr) blast
  then obtain r where r: "Name r = ''windows-node-disk-running-full''" and
    run: "Sync x0 (mem_syncer nodes0) ''worker-2'' None mem_empty =
        ((None, None),
         \<lparr>mem_groups = [], mem_rules = [((''c-1'', ''windows-node-disk-running-full''), r)]\<rparr>,
         [ListNodes NamespaceAll windowNodeLabel None,
          GetClusterAlertRule ''c-1'' ''windows-node-disk-running-full'' (Some not_found),
          CreateClusterAlertRule r None])"
    by auto
  have "CreateClusterAlertRule r None \<in> set ?evs"
    by (subst run) simp
  then have "\<exists>ev \<in> set ?evs. is_create ev"
    by (metis is_create.simps(2))
  moreover have "fst (nodeLister_List (mem_syncer nodes0) NamespaceAll windowNodeLabel mem_empty) =
      filter (\<lambda>n. matches windowNodeLabel (Labels n)) nodes0"
    by (simp add: mem_syncer_def)
  ultimately have n: "\<exists>n \<in> set nodes0. map_of (Labels n) ''kubernetes.io/os'' = Some ''windows''"
    using t by blast
  have "nodeLister_List (mem_syncer []) NamespaceAll windowNodeLabel mem_empty = ([], None)"
    by (simp add: mem_syncer_def)
  with Sync_provisions_windows_rule [of "mem_syncer []" mem_empty x0 "''worker-2''" None,
      unfolded Let_def]
  have e: "Sync x0 (mem_syncer []) ''worker-2'' None mem_empty =
     ((None, None), mem_empty, [ListNodes NamespaceAll windowNodeLabel None])"
    by simp
  from r run n e show ?thesis by blast
qed


end
